theory Spec2Isabelle
  imports Complex_Main
begin

section \<open>JavaScript values used by the edge functions\<close>

text \<open>
  A JavaScript string is modelled as the list of its code units, taken from the code units
  below 256 (\<^typ>\<open>string\<close>): the characters the functions below look for (\<open>.\<close>, newline,
  comma, space, the double quote) are among them, and so is the white space of that range
  that \<open>String.prototype.trim\<close> strips (tab, line feed, vertical tab, form feed, carriage
  return, space, no-break space).
  Numbers are modelled as \<^typ>\<open>int\<close>: every number the code computes with is an index, a
  length or an integer parameter (every caller passes 1000 and 200), and integers of that
  size are exact as doubles. The one fraction, half a window, is computed in \<^typ>\<open>real\<close>.
\<close>

datatype js_error = TypeError string | Error string

definition is_whitespace :: "char \<Rightarrow> bool" where
  "is_whitespace c =
     (c \<in> set [CHR 0x09, CHR 0x0A, CHR 0x0B, CHR 0x0C, CHR 0x0D, CHR 0x20, CHR 0xA0])"

definition trim :: "string \<Rightarrow> string" where
  "trim s = rev (dropWhile is_whitespace (rev (dropWhile is_whitespace s)))"

text \<open>\<open>s.split(sep)\<close> for a one-character separator: never an empty array.\<close>

fun js_split :: "char \<Rightarrow> string \<Rightarrow> string list" where
  "js_split sep [] = [[]]"
| "js_split sep (c # cs) =
     (if c = sep then [] # js_split sep cs
      else (case js_split sep cs of [] \<Rightarrow> [[c]] | w # ws \<Rightarrow> (c # w) # ws))"

text \<open>\<open>xs[i]\<close> followed by a method call: reading past the end gives \<open>undefined\<close>, and
  calling a method on it throws a \<open>TypeError\<close>.\<close>

definition js_index :: "'a list \<Rightarrow> nat \<Rightarrow> js_error + 'a" where
  "js_index xs i =
     (if i < length xs then Inr (xs ! i)
      else Inl (TypeError ''Cannot read properties of undefined''))"

fun js_join :: "string \<Rightarrow> string list \<Rightarrow> string" where
  "js_join sep [] = []"
| "js_join sep [x] = x"
| "js_join sep (x # y # ys) = x @ sep @ js_join sep (y # ys)"

text \<open>The decimal numeral a template literal prints for a non-negative integer.\<close>

definition digit_char :: "nat \<Rightarrow> char" where
  "digit_char d = ''0123456789'' ! d"

fun show_nat :: "nat \<Rightarrow> string" where
  "show_nat n =
     (if n < 10 then [digit_char n]
      else show_nat (n div 10) @ [digit_char (n mod 10)])"

declare show_nat.simps [simp del]

text \<open>\<open>text.slice(start, end)\<close>: a negative index counts from the end, both are clamped to
  the string, and an end at or before the start gives the empty string.\<close>

definition js_slice :: "string \<Rightarrow> int \<Rightarrow> int \<Rightarrow> string" where
  "js_slice text start end =
     (let len = int (length text);
          from = (if start < 0 then max (len + start) 0 else min start len);
          to = (if end < 0 then max (len + end) 0 else min end len)
      in take (nat (to - from)) (drop (nat from) text))"

text \<open>\<open>text.substring(0, n)\<close> for a non-negative constant \<open>n\<close>.\<close>

definition js_substring0 :: "string \<Rightarrow> nat \<Rightarrow> string" where
  "js_substring0 text n = take n text"

text \<open>\<open>text.lastIndexOf(c, pos)\<close> for a one-character search string: the largest index
  \<open>k \<le> pos\<close> (with \<open>pos\<close> clamped to the string) holding \<open>c\<close>, or \<open>-1\<close>.\<close>

fun last_index_upto :: "string \<Rightarrow> char \<Rightarrow> nat \<Rightarrow> int" where
  "last_index_upto text c 0 = (if text \<noteq> [] \<and> text ! 0 = c then 0 else -1)"
| "last_index_upto text c (Suc k) =
     (if Suc k < length text \<and> text ! Suc k = c then int (Suc k)
      else last_index_upto text c k)"

definition lastIndexOf :: "string \<Rightarrow> char \<Rightarrow> int \<Rightarrow> int" where
  "lastIndexOf text c pos = last_index_upto text c (nat (min (max pos 0) (int (length text))))"

section \<open>URL ingestion: deriving a title\<close>

text \<open>
  \<open>new URL(url)\<close> is the platform's parser. It is a parameter here: \<open>url_hostname url\<close> is
  \<open>Some h\<close> when the URL parses with host name \<open>h\<close>, and \<open>None\<close> when the constructor
  throws.
\<close>

definition new_URL :: "(string \<Rightarrow> string option) \<Rightarrow> string \<Rightarrow> js_error + string" where
  "new_URL url_hostname url =
     (case url_hostname url of
        None \<Rightarrow> Inl (TypeError ''Invalid URL'')
      | Some h \<Rightarrow> Inr h)"

definition extractTitleFromContent ::
  "(string \<Rightarrow> string option) \<Rightarrow> string \<Rightarrow> string \<Rightarrow> js_error + string" where
  "extractTitleFromContent url_hostname content url =
     (case js_index (js_split CHR 0x0A content) 0 of
        Inl e \<Rightarrow> Inl e
      | Inr l \<Rightarrow>
          (let firstLine = trim l in
           if length firstLine > 10 \<and> length firstLine < 100 then Inr firstLine
           else (case new_URL url_hostname url of
                   Inr hostname \<Rightarrow> Inr (''Content from '' @ hostname)
                 | Inl _ \<Rightarrow> Inr ''Web Content'')))"

section \<open>Text extraction: CSV\<close>

text \<open>\<open>col.replace(/^"|"$/g, '')\<close>: one leading and one trailing double quote are removed.\<close>

definition strip_quotes :: "string \<Rightarrow> string" where
  "strip_quotes s =
     (let s1 = (case s of [] \<Rightarrow> [] | c # cs \<Rightarrow> if c = CHR 0x22 then cs else s)
      in if s1 \<noteq> [] \<and> last s1 = CHR 0x22 then butlast s1 else s1)"

text \<open>One iteration of the loop of the document processor's \<open>parseCSVToText\<close> (the variant
  that splits columns): what line \<open>i\<close> appends to \<open>result\<close>.\<close>

definition csv_line_text :: "nat \<Rightarrow> string \<Rightarrow> string list" where
  "csv_line_text i l =
     (let line = trim l in
      if line \<noteq> [] then
        (let columns = map (\<lambda>col. strip_quotes (trim col)) (js_split CHR '','' line) in
         if i = 0 then [''Table Headers: '' @ js_join '', '' columns]
         else [''Row '' @ show_nat i @ '': '' @ js_join '' | '' columns])
      else [])"

fun parseCSV_loop :: "string list \<Rightarrow> nat \<Rightarrow> string list \<Rightarrow> string list" where
  "parseCSV_loop [] i result = result"
| "parseCSV_loop (l # ls) i result = parseCSV_loop ls (i + 1) (result @ csv_line_text i l)"

definition parseCSVToText :: "string \<Rightarrow> string" where
  "parseCSVToText csvContent =
     js_join [CHR 0x0A] (parseCSV_loop (js_split CHR 0x0A csvContent) 0 [])"

text \<open>The \<open>parseCSVToText\<close> of the processor that falls back from the conversion service:
  it appends to a string and does not split columns.\<close>

definition csv_fallback_line_text :: "nat \<Rightarrow> string \<Rightarrow> string" where
  "csv_fallback_line_text i l =
     (let line = trim l in
      if line \<noteq> [] then
        (if i = 0 then ''CSV Headers: '' @ line @ [CHR 0x0A, CHR 0x0A]
         else ''Row '' @ show_nat i @ '': '' @ line @ [CHR 0x0A])
      else [])"

fun parseCSV_fallback_loop :: "string list \<Rightarrow> nat \<Rightarrow> string \<Rightarrow> string" where
  "parseCSV_fallback_loop [] i result = result"
| "parseCSV_fallback_loop (l # ls) i result =
     parseCSV_fallback_loop ls (i + 1) (result @ csv_fallback_line_text i l)"

definition parseCSVToText_fallback :: "string \<Rightarrow> string" where
  "parseCSVToText_fallback csvText = parseCSV_fallback_loop (js_split CHR 0x0A csvText) 0 []"

text \<open>The format in the words of the specification: the header line as
  \<open>Table Headers: <cols>\<close> with the columns joined by a comma and a space, every later
  non-blank line as \<open>Row N: <cols>\<close> with the columns joined by \<open> | \<close>, where \<open>N\<close> counts the
  lines after the header from 1 (blank lines are counted but print nothing).\<close>

definition csv_columns :: "string \<Rightarrow> string list" where
  "csv_columns l = map (\<lambda>col. strip_quotes (trim col)) (js_split CHR '','' (trim l))"

definition spec_csv_text :: "string list \<Rightarrow> string" where
  "spec_csv_text lines =
     js_join [CHR 0x0A]
       (map (\<lambda>i. if i = 0 then ''Table Headers: '' @ js_join '', '' (csv_columns (lines ! i))
                  else ''Row '' @ show_nat i @ '': '' @ js_join '' | '' (csv_columns (lines ! i)))
          (filter (\<lambda>i. trim (lines ! i) \<noteq> []) [0..<length lines]))"

definition spec_csv_fallback_text :: "string list \<Rightarrow> string" where
  "spec_csv_fallback_text lines =
     concat
       (map (\<lambda>i. if i = 0 then ''CSV Headers: '' @ trim (lines ! i) @ [CHR 0x0A, CHR 0x0A]
                  else ''Row '' @ show_nat i @ '': '' @ trim (lines ! i) @ [CHR 0x0A])
          (filter (\<lambda>i. trim (lines ! i) \<noteq> []) [0..<length lines]))"

text \<open>Whether a text contains another, as \<open>String.prototype.includes\<close> decides it.\<close>

fun js_includes :: "string \<Rightarrow> string \<Rightarrow> bool" where
  "js_includes [] needle = (needle = [])"
| "js_includes (c # cs) needle =
     (take (length needle) (c # cs) = needle \<or> js_includes cs needle)"

section \<open>Chunking\<close>

record TextChunk =
  content :: string
  startIndex :: int
  endIndex :: int

text \<open>The end of the window that starts at \<open>startIdx\<close> (the variable \<open>startIndex\<close>
  of the source; \<open>endIdx\<close> is its \<open>endIndex\<close>): the hard cut, moved back to just
  after the last full stop or newline at or before it when that break lies beyond half a
  window.\<close>

definition window_end :: "string \<Rightarrow> int \<Rightarrow> int \<Rightarrow> int" where
  "window_end text maxChunkSize startIdx =
     (let endIdx = min (startIdx + maxChunkSize) (int (length text)) in
      if endIdx < int (length text) then
        (let lastPeriod = lastIndexOf text CHR ''.'' endIdx;
             lastNewline = lastIndexOf text CHR 0x0A endIdx;
             breakPoint = max lastPeriod lastNewline
         in if real_of_int breakPoint > real_of_int startIdx + real_of_int maxChunkSize * 0.5
            then breakPoint + 1 else endIdx)
      else endIdx)"

definition push_chunk :: "TextChunk list \<Rightarrow> string \<Rightarrow> int \<Rightarrow> int \<Rightarrow> TextChunk list" where
  "push_chunk chunks text startIdx endIdx =
     (let chunkContent = trim (js_slice text startIdx endIdx) in
      if length chunkContent > 0
      then chunks @ [\<lparr>content = chunkContent, startIndex = startIdx, endIndex = endIdx\<rparr>]
      else chunks)"

definition next_start :: "int \<Rightarrow> int \<Rightarrow> int \<Rightarrow> int" where
  "next_start startIdx endIdx overlap = max (startIdx + 1) (endIdx - overlap)"

text \<open>The \<open>while\<close> loop of \<open>chunkText\<close>. A run that never leaves the loop is the value
  \<open>None\<close>.\<close>

partial_function (option) chunkText_loop ::
  "string \<Rightarrow> int \<Rightarrow> int \<Rightarrow> int \<Rightarrow> TextChunk list \<Rightarrow> TextChunk list option" where
  "chunkText_loop text maxChunkSize overlap startIdx chunks =
     (if startIdx < int (length text) then
        chunkText_loop text maxChunkSize overlap
          (next_start startIdx (window_end text maxChunkSize startIdx) overlap)
          (push_chunk chunks text startIdx (window_end text maxChunkSize startIdx))
      else Some chunks)"

declare chunkText_loop.simps [code]

definition chunkText :: "string \<Rightarrow> int \<Rightarrow> int \<Rightarrow> TextChunk list option" where
  "chunkText text maxChunkSize overlap = chunkText_loop text maxChunkSize overlap 0 []"

text \<open>The legacy \<open>chunkText\<close> kept beside \<open>chunkMarkdown\<close>: it returns early for a text
  that fits one window, and also breaks at spaces.\<close>

definition window_end_legacy :: "string \<Rightarrow> int \<Rightarrow> int \<Rightarrow> int" where
  "window_end_legacy text maxChunkSize startIdx =
     (let endIdx = min (startIdx + maxChunkSize) (int (length text)) in
      if endIdx < int (length text) then
        (let lastSentenceEnd = lastIndexOf text CHR ''.'' endIdx;
             lastNewline = lastIndexOf text CHR 0x0A endIdx;
             lastSpace = lastIndexOf text CHR 0x20 endIdx;
             bestEndIndex = max (max lastSentenceEnd lastNewline) lastSpace
         in if real_of_int bestEndIndex > real_of_int startIdx + real_of_int maxChunkSize * 0.5
            then bestEndIndex + 1 else endIdx)
      else endIdx)"

partial_function (option) chunkText_legacy_loop ::
  "string \<Rightarrow> int \<Rightarrow> int \<Rightarrow> int \<Rightarrow> TextChunk list \<Rightarrow> TextChunk list option" where
  "chunkText_legacy_loop text maxChunkSize overlap startIdx chunks =
     (if startIdx < int (length text) then
        chunkText_legacy_loop text maxChunkSize overlap
          (next_start startIdx (window_end_legacy text maxChunkSize startIdx) overlap)
          (push_chunk chunks text startIdx (window_end_legacy text maxChunkSize startIdx))
      else Some chunks)"

declare chunkText_legacy_loop.simps [code]

definition chunkText_legacy :: "string \<Rightarrow> int \<Rightarrow> int \<Rightarrow> TextChunk list option" where
  "chunkText_legacy text maxChunkSize overlap =
     (if int (length text) \<le> maxChunkSize
      then Some [\<lparr>content = text, startIndex = 0, endIndex = int (length text)\<rparr>]
      else chunkText_legacy_loop text maxChunkSize overlap 0 [])"

text \<open>What the first window of a text that fits one window contributes: the trimmed text
  with the offsets of the whole text, or nothing when the text is all white space.\<close>

definition first_chunk :: "string \<Rightarrow> TextChunk list" where
  "first_chunk text =
     (if trim text = [] then []
      else [\<lparr>content = trim text, startIndex = 0, endIndex = int (length text)\<rparr>])"

definition estimateTokens :: "string \<Rightarrow> int" where
  "estimateTokens text = \<lceil>real (length text) / 4\<rceil>"

section \<open>Embedding requests\<close>

text \<open>
  The embedding service is outside the repository: \<open>fetch\<close> is a parameter that maps the
  request body to what comes back. A vector is the list of its components.
\<close>

type_synonym vector = "real list"

record embedding_request =
  model :: string
  input :: string

datatype 'a fetch_result = NetworkFailure | HttpError nat string | HttpOk 'a

definition openai_result :: "vector fetch_result \<Rightarrow> js_error + vector" where
  "openai_result response =
     (case response of
        NetworkFailure \<Rightarrow> Inl (TypeError ''fetch failed'')
      | HttpError status errorText \<Rightarrow>
          Inl (Error (''OpenAI API error: '' @ show_nat status @ '' '' @ errorText))
      | HttpOk embedding \<Rightarrow> Inr embedding)"

text \<open>\<open>generateEmbedding\<close> of the manual-knowledge and URL functions: the text is cut to
  \<open>maxLength\<close> characters before it is sent.\<close>

definition maxLength :: nat where
  "maxLength = 8000"

definition embedding_request_knowledge :: "string \<Rightarrow> embedding_request" where
  "embedding_request_knowledge text =
     (let truncatedText = (if length text > maxLength then js_substring0 text maxLength else text)
      in \<lparr>model = ''text-embedding-ada-002'', input = truncatedText\<rparr>)"

definition generateEmbedding_knowledge ::
  "(embedding_request \<Rightarrow> vector fetch_result) \<Rightarrow> string \<Rightarrow> js_error + vector" where
  "generateEmbedding_knowledge fetch text = openai_result (fetch (embedding_request_knowledge text))"

text \<open>\<open>generateEmbedding\<close> of the chat function and of the document processors: the text
  is sent as it is.\<close>

definition embedding_request_chat :: "string \<Rightarrow> embedding_request" where
  "embedding_request_chat text = \<lparr>model = ''text-embedding-ada-002'', input = text\<rparr>"

definition generateEmbedding_chat ::
  "(embedding_request \<Rightarrow> vector fetch_result) \<Rightarrow> string \<Rightarrow> js_error + vector" where
  "generateEmbedding_chat fetch text = openai_result (fetch (embedding_request_chat text))"

definition embedding_request_document :: "string \<Rightarrow> embedding_request" where
  "embedding_request_document text = \<lparr>model = ''text-embedding-ada-002'', input = text\<rparr>"

definition generateEmbedding_document ::
  "(embedding_request \<Rightarrow> vector fetch_result) \<Rightarrow> string \<Rightarrow> js_error + vector" where
  "generateEmbedding_document fetch text = openai_result (fetch (embedding_request_document text))"

text \<open>\<open>generateEmbedding\<close> of the processor that converts to Markdown: another model, and
  an error without the response text.\<close>

definition embedding_request_markdown :: "string \<Rightarrow> embedding_request" where
  "embedding_request_markdown text = \<lparr>model = ''text-embedding-3-small'', input = text\<rparr>"

definition generateEmbedding_markdown ::
  "(embedding_request \<Rightarrow> vector fetch_result) \<Rightarrow> string \<Rightarrow> js_error + vector" where
  "generateEmbedding_markdown fetch text =
     (case fetch (embedding_request_markdown text) of
        NetworkFailure \<Rightarrow> Inl (TypeError ''fetch failed'')
      | HttpError status errorText \<Rightarrow> Inl (Error (''OpenAI API error: '' @ show_nat status))
      | HttpOk embedding \<Rightarrow> Inr embedding)"

section \<open>Document ingestion\<close>

datatype upload_status = pending | processing | completed | failed

text \<open>The payload of an insert into \<open>document_chunks\<close>.\<close>

record chunk_insert =
  document_id :: "string option"
  chunk_index :: nat
  chunk_content :: string
  token_count :: int
  embedding :: vector
  start_char :: int
  end_char :: int

text \<open>
  What a request does to the outside world, in order: a line on the error console, a status
  update of the \<open>documents\<close> rows with a given id, a row added to \<open>document_chunks\<close>, the
  pause between two batches. Informational \<open>console.log\<close> lines are left out. The
  chunks of one batch run concurrently; their effects are listed in index order, one of the
  possible interleavings.
\<close>

datatype effect =
    ConsoleError string
  | UpdateStatus "string option" upload_status
  | InsertChunk chunk_insert
  | Pause nat

text \<open>
  The request: its method, its JSON body (\<open>None\<close> when it does not parse to an object) and
  the flag of the Fetch API that the body stream has been read. \<open>req.json()\<close> reads the
  stream once; a second call rejects.
\<close>

record request_body =
  documentId :: "string option"
  filePath :: "string option"

record request =
  req_method :: string
  body :: "request_body option"
  bodyUsed :: bool

definition req_json :: "request \<Rightarrow> (js_error + request_body) \<times> request" where
  "req_json req =
     (if bodyUsed req then (Inl (TypeError ''Body already consumed''), req)
      else (case body req of
              None \<Rightarrow> (Inl (Error ''Unexpected token in JSON''), req\<lparr>bodyUsed := True\<rparr>)
            | Some b \<Rightarrow> (Inr b, req\<lparr>bodyUsed := True\<rparr>)))"

text \<open>
  The services a run talks to: the storage download (an error message, or the file), the
  text extraction on the downloaded file (it throws, or returns the text), the embedding
  service as called for the chunk with a given index, and the error an insert comes back
  with, if any.
\<close>

record env =
  download_error :: "string option"
  extraction :: "js_error + string"
  embedding_fetch :: "nat \<Rightarrow> embedding_request \<Rightarrow> vector fetch_result"
  insert_error :: "chunk_insert \<Rightarrow> string option"

definition truthy :: "string option \<Rightarrow> bool" where
  "truthy v = (case v of None \<Rightarrow> False | Some s \<Rightarrow> s \<noteq> [])"

definition error_message :: "js_error \<Rightarrow> string" where
  "error_message e = (case e of TypeError m \<Rightarrow> m | Error m \<Rightarrow> m)"

text \<open>The body of the \<open>batch.map\<close> callback for the chunk stored under index \<open>k\<close>
  (\<open>i + index\<close> in the source). The processors differ in the \<open>generateEmbedding\<close> they
  call, which is the first argument.\<close>

type_synonym embedder = "(embedding_request \<Rightarrow> vector fetch_result) \<Rightarrow> string \<Rightarrow> js_error + vector"

definition process_chunk ::
  "embedder \<Rightarrow> env \<Rightarrow> string option \<Rightarrow> nat \<Rightarrow> TextChunk \<Rightarrow> effect list" where
  "process_chunk generateEmbedding e docId k chunk =
     (case generateEmbedding (embedding_fetch e k) (content chunk) of
        Inl chunkError \<Rightarrow> [ConsoleError (''Failed to process chunk '' @ show_nat k @ '':'')]
      | Inr emb \<Rightarrow>
          (let row = \<lparr>document_id = docId, chunk_index = k, chunk_content = content chunk,
                      token_count = estimateTokens (content chunk), embedding = emb,
                      start_char = startIndex chunk, end_char = endIndex chunk\<rparr>
           in case insert_error e row of
                Some insertError \<Rightarrow> [ConsoleError (''Failed to insert chunk '' @ show_nat k @ '':'')]
              | None \<Rightarrow> [InsertChunk row]))"

definition batchSize :: nat where
  "batchSize = 5"

function process_batches ::
  "embedder \<Rightarrow> env \<Rightarrow> string option \<Rightarrow> TextChunk list \<Rightarrow> nat \<Rightarrow> effect list" where
  "process_batches generateEmbedding e docId chunks i =
     (if i < length chunks then
        (let batch = take batchSize (drop i chunks) in
         concat (map (\<lambda>(index, chunk). process_chunk generateEmbedding e docId (i + index) chunk)
                   (enumerate 0 batch))
         @ (if i + batchSize < length chunks then [Pause 1000] else [])
         @ process_batches generateEmbedding e docId chunks (i + batchSize))
      else [])"
  by pat_completeness auto
termination
  by (relation "measure (\<lambda>(generateEmbedding, e, docId, chunks, i). length chunks - i)")
     (auto simp: batchSize_def)

declare process_batches.simps [simp del]

datatype response = Preflight | Ok200 nat | Failed500 string

text \<open>
  The \<open>try\<close> block, which the three document processors share line for line except for the
  chunker and the \<open>generateEmbedding\<close> they call and the wording of one error. Its result
  is what the \<open>catch\<close> handler can see: whether the block returned (with \<open>chunksCreated\<close>) or threw, the effects so far,
  the request after the block, and the outer variable \<open>documentId\<close> of the later two
  processors (unset until the body has been read). \<open>None\<close> is a chunker that never
  returns.
\<close>

record try_result =
  outcome :: "js_error + nat"
  effects :: "effect list"
  req_after :: request
  documentId_var :: "string option"

definition try_block ::
  "(string \<Rightarrow> TextChunk list option) \<Rightarrow> embedder \<Rightarrow> string \<Rightarrow> env \<Rightarrow> request \<Rightarrow>
   try_result option" where
  "try_block chunker generateEmbedding empty_text_error e req =
     (case req_json req of
        (Inl err, req') \<Rightarrow>
          Some \<lparr>outcome = Inl err, effects = [], req_after = req', documentId_var = None\<rparr>
      | (Inr b, req') \<Rightarrow>
          (let docId = documentId b;
               started = [UpdateStatus docId processing];
               thrown = (\<lambda>err. Some \<lparr>outcome = Inl err, effects = started, req_after = req',
                                       documentId_var = docId\<rparr>)
           in case download_error e of
                Some downloadError \<Rightarrow> thrown (Error (''Failed to download file: '' @ downloadError))
              | None \<Rightarrow>
                  (case extraction e of
                     Inl err \<Rightarrow> thrown err
                   | Inr text \<Rightarrow>
                       if length (trim text) = 0 then thrown (Error empty_text_error)
                       else (case chunker text of
                               None \<Rightarrow> None
                             | Some chunks \<Rightarrow>
                                 Some \<lparr>outcome = Inr (length chunks),
                                       effects = started @ process_batches generateEmbedding e docId chunks 0
                                                 @ [UpdateStatus docId completed],
                                       req_after = req', documentId_var = docId\<rparr>))))"

text \<open>The first document processor: its \<open>catch\<close> handler reads the request body again to
  find the document id.\<close>

definition catch_reread :: "try_result \<Rightarrow> js_error \<Rightarrow> response \<times> effect list" where
  "catch_reread r err =
     (let b = (case fst (req_json (req_after r)) of
                 Inl _ \<Rightarrow> \<lparr>documentId = None, filePath = None\<rparr>
               | Inr parsed \<Rightarrow> parsed)
      in (Failed500 (error_message err),
          effects r @ [ConsoleError ''Error processing document:'']
          @ (if truthy (documentId b) then [UpdateStatus (documentId b) failed] else [])))"

definition serve_basic :: "env \<Rightarrow> request \<Rightarrow> (response \<times> effect list) option" where
  "serve_basic e req =
     (if req_method req = ''OPTIONS'' then Some (Preflight, [])
      else (case try_block (\<lambda>text. chunkText text 1000 200) generateEmbedding_document
                   ''No text content could be extracted from the file'' e req of
              None \<Rightarrow> None
            | Some r \<Rightarrow>
                (case outcome r of
                   Inr chunksCreated \<Rightarrow> Some (Ok200 chunksCreated, effects r)
                 | Inl err \<Rightarrow> Some (catch_reread r err))))"

text \<open>The later processors: the handler uses the outer variable.\<close>

definition catch_outer :: "try_result \<Rightarrow> js_error \<Rightarrow> response \<times> effect list" where
  "catch_outer r err =
     (Failed500 (error_message err),
      effects r @ [ConsoleError ''Error processing document:'']
      @ (if truthy (documentId_var r) then [UpdateStatus (documentId_var r) failed] else []))"

definition serve_enhanced :: "env \<Rightarrow> request \<Rightarrow> (response \<times> effect list) option" where
  "serve_enhanced e req =
     (if req_method req = ''OPTIONS'' then Some (Preflight, [])
      else (case try_block (\<lambda>text. chunkText text 1000 200) generateEmbedding_document
                   ''No text content could be extracted from the file'' e req of
              None \<Rightarrow> None
            | Some r \<Rightarrow>
                (case outcome r of
                   Inr chunksCreated \<Rightarrow> Some (Ok200 chunksCreated, effects r)
                 | Inl err \<Rightarrow> Some (catch_outer r err))))"

text \<open>The processor that converts to Markdown first. Its chunker \<open>chunkMarkdown\<close> works
  with regular expressions and is a parameter here.\<close>

definition serve_unstructured ::
  "(string \<Rightarrow> int \<Rightarrow> int \<Rightarrow> TextChunk list) \<Rightarrow> env \<Rightarrow> request \<Rightarrow> (response \<times> effect list) option" where
  "serve_unstructured chunkMarkdown e req =
     (if req_method req = ''OPTIONS'' then Some (Preflight, [])
      else (case try_block (\<lambda>text. Some (chunkMarkdown text 1000 200)) generateEmbedding_markdown
                   ''No content could be extracted from the file'' e req of
              None \<Rightarrow> None
            | Some r \<Rightarrow>
                (case outcome r of
                   Inr chunksCreated \<Rightarrow> Some (Ok200 chunksCreated, effects r)
                 | Inl err \<Rightarrow> Some (catch_outer r err))))"

text \<open>Reading a run: the rows it stored, the status updates it issued, and the statuses an
  existing \<open>documents\<close> row goes through when the store applies every update it is sent
  (an update only touches the rows with its id; the code does not look at its result).\<close>

fun inserted_rows :: "effect list \<Rightarrow> chunk_insert list" where
  "inserted_rows [] = []"
| "inserted_rows (InsertChunk row # effs) = row # inserted_rows effs"
| "inserted_rows (_ # effs) = inserted_rows effs"

fun status_updates :: "effect list \<Rightarrow> (string option \<times> upload_status) list" where
  "status_updates [] = []"
| "status_updates (UpdateStatus target st # effs) = (target, st) # status_updates effs"
| "status_updates (_ # effs) = status_updates effs"

fun status_history :: "upload_status \<Rightarrow> string \<Rightarrow> effect list \<Rightarrow> upload_status list" where
  "status_history st docId [] = [st]"
| "status_history st docId (UpdateStatus target st' # effs) =
     (if target = Some docId then st # status_history st' docId effs
      else status_history st docId effs)"
| "status_history st docId (_ # effs) = status_history st docId effs"

text \<open>The effects of the chunks alone, without the pauses between the batches, and whether
  the chunk with index \<open>k\<close> ends up stored.\<close>

fun drop_pauses :: "effect list \<Rightarrow> effect list" where
  "drop_pauses [] = []"
| "drop_pauses (Pause ms # effs) = drop_pauses effs"
| "drop_pauses (eff # effs) = eff # drop_pauses effs"

definition stored ::
  "embedder \<Rightarrow> env \<Rightarrow> string option \<Rightarrow> TextChunk list \<Rightarrow> nat \<Rightarrow> bool" where
  "stored generateEmbedding e docId chunks k =
     (inserted_rows (process_chunk generateEmbedding e docId k (chunks ! k)) \<noteq> [])"

text \<open>Example runs: a request for document \<open>d1\<close>, whose file holds the two characters
  \<open>ab\<close> (two chunks), with an embedding service that fails for every chunk, fails for
  chunk 0 only, or fails never; and a run whose extraction throws.\<close>

definition example_request :: request where
  "example_request =
     \<lparr>req_method = ''POST'',
      body = Some \<lparr>documentId = Some ''d1'', filePath = Some ''d1/notes.txt''\<rparr>,
      bodyUsed = False\<rparr>"

definition example_env :: "(nat \<Rightarrow> bool) \<Rightarrow> env" where
  "example_env embedding_fails =
     \<lparr>download_error = None, extraction = Inr ''ab'',
      embedding_fetch = (\<lambda>k r. if embedding_fails k then HttpError 429 ''rate limit'' else HttpOk [1, 0]),
      insert_error = (\<lambda>row. None)\<rparr>"

definition example_env_extraction_throws :: env where
  "example_env_extraction_throws =
     \<lparr>download_error = None, extraction = Inl (Error ''Unsupported file type''),
      embedding_fetch = (\<lambda>k r. HttpOk [1, 0]),
      insert_error = (\<lambda>row. None)\<rparr>"

section \<open>Similarity search\<close>

text \<open>
  The two SQL functions, over the columns they read. A \<open>float\<close> value is a number or NaN
  (\<open>float8\<close>; a number is modelled as a \<^typ>\<open>real\<close>, without rounding), in the order the
  database gives the type: NaN equals itself and is greater than every number, which is
  how \<open>>\<close> compares and how \<open>ORDER BY\<close> sorts. Subtraction gives NaN for NaN.
\<close>

datatype float8 = Num real | NaN

instantiation float8 :: linorder
begin

definition less_eq_float8 :: "float8 \<Rightarrow> float8 \<Rightarrow> bool" where
  "less_eq_float8 a b =
     (case b of NaN \<Rightarrow> True | Num y \<Rightarrow> (case a of NaN \<Rightarrow> False | Num x \<Rightarrow> x \<le> y))"

definition less_float8 :: "float8 \<Rightarrow> float8 \<Rightarrow> bool" where
  "less_float8 a b =
     (case a of NaN \<Rightarrow> False | Num x \<Rightarrow> (case b of NaN \<Rightarrow> True | Num y \<Rightarrow> x < y))"

instance
  by standard (auto simp: less_eq_float8_def less_float8_def split: float8.splits)

end

text \<open>\<open>1 - x\<close> on \<open>float8\<close>.\<close>

definition one_minus :: "float8 \<Rightarrow> float8" where
  "one_minus x = (case x of NaN \<Rightarrow> NaN | Num r \<Rightarrow> Num (1 - r))"

text \<open>
  \<open><=>\<close> is the vector extension's cosine distance. The functions below take it as a
  parameter, so what is proved of them holds for every operator. The extension computes
  it as follows (in exact arithmetic): one minus the cosine, kept within \<open>[-1, 1]\<close>, and NaN
  when one of the vectors is zero, the quotient being \<open>0 / 0\<close> then.
\<close>

definition dot_product :: "vector \<Rightarrow> vector \<Rightarrow> real" where
  "dot_product a b = sum_list (map2 (*) a b)"

definition pgvector_cosine_distance :: "vector \<Rightarrow> vector \<Rightarrow> float8" where
  "pgvector_cosine_distance a b =
     (let norma = dot_product a a; normb = dot_product b b in
      if norma * normb = 0 then NaN
      else Num (1 - max (- 1) (min 1 (dot_product a b / sqrt (norma * normb)))))"

text \<open>
  A \<open>NULL\<close> is \<open>None\<close>: the distance to a \<open>NULL\<close> vector is \<open>NULL\<close>, and \<open>WHERE\<close> keeps a
  row only when its condition is true, so a row whose comparison is \<open>NULL\<close> is dropped.
  \<open>ORDER BY\<close> is modelled by a stable sort, one of the orders the database may return
  for rows at equal distance. \<open>LIMIT NULL\<close> is no limit and a negative \<open>LIMIT\<close> is an
  error.
\<close>

record document =
  doc_id :: string
  doc_upload_status :: upload_status

record document_chunk =
  dc_id :: string
  dc_document_id :: string
  dc_content :: string
  dc_chunk_index :: int
  dc_metadata :: string
  dc_embedding :: "vector option"

record knowledge_entry =
  kb_id :: string
  kb_title :: string
  kb_content :: string
  kb_description :: "string option"
  kb_tags :: "string list option"
  kb_embedding :: "vector option"

record chunk_match =
  cm_id :: string
  cm_document_id :: string
  cm_content :: string
  cm_chunk_index :: int
  cm_metadata :: string
  cm_similarity :: float8

record knowledge_match =
  km_id :: string
  km_title :: string
  km_content :: string
  km_description :: "string option"
  km_tags :: "string list option"
  km_similarity :: float8

datatype sql_error = NegativeLimit

definition sql_distance ::
  "(vector \<Rightarrow> vector \<Rightarrow> float8) \<Rightarrow> vector option \<Rightarrow> vector option \<Rightarrow> float8 list" where
  "sql_distance cosine_distance a b =
     (case a of None \<Rightarrow> []
      | Some x \<Rightarrow> (case b of None \<Rightarrow> [] | Some y \<Rightarrow> [cosine_distance x y]))"

definition sql_greater :: "float8 \<Rightarrow> float8 option \<Rightarrow> bool" where
  "sql_greater x threshold = (case threshold of None \<Rightarrow> False | Some t \<Rightarrow> x > t)"

definition sql_limit :: "int option \<Rightarrow> 'a list \<Rightarrow> sql_error + 'a list" where
  "sql_limit match_count rows =
     (case match_count of
        None \<Rightarrow> Inr rows
      | Some k \<Rightarrow> if k < 0 then Inl NegativeLimit else Inr (take (nat k) rows))"

definition chunk_result :: "document_chunk \<times> float8 \<Rightarrow> chunk_match" where
  "chunk_result r =
     (case r of (dc, distance) \<Rightarrow>
        \<lparr>cm_id = dc_id dc, cm_document_id = dc_document_id dc, cm_content = dc_content dc,
         cm_chunk_index = dc_chunk_index dc, cm_metadata = dc_metadata dc,
         cm_similarity = one_minus distance\<rparr>)"

definition search_chunks_rows ::
  "(vector \<Rightarrow> vector \<Rightarrow> float8) \<Rightarrow> document list \<Rightarrow> document_chunk list \<Rightarrow>
   vector option \<Rightarrow> float8 option \<Rightarrow> (document_chunk \<times> float8) list" where
  "search_chunks_rows cosine_distance documents document_chunks query_embedding match_threshold =
     sort_key snd
       [(dc, distance).
          dc \<leftarrow> document_chunks, d \<leftarrow> documents, dc_document_id dc = doc_id d,
          doc_upload_status d = completed,
          distance \<leftarrow> sql_distance cosine_distance (dc_embedding dc) query_embedding,
          sql_greater (one_minus distance) match_threshold]"

definition search_chunks ::
  "(vector \<Rightarrow> vector \<Rightarrow> float8) \<Rightarrow> document list \<Rightarrow> document_chunk list \<Rightarrow>
   vector option \<Rightarrow> float8 option \<Rightarrow> int option \<Rightarrow> sql_error + chunk_match list" where
  "search_chunks cosine_distance documents document_chunks query_embedding match_threshold match_count =
     (case sql_limit match_count
             (search_chunks_rows cosine_distance documents document_chunks
                query_embedding match_threshold) of
        Inl err \<Rightarrow> Inl err
      | Inr rows \<Rightarrow> Inr (map chunk_result rows))"

definition knowledge_result :: "knowledge_entry \<times> float8 \<Rightarrow> knowledge_match" where
  "knowledge_result r =
     (case r of (kb, distance) \<Rightarrow>
        \<lparr>km_id = kb_id kb, km_title = kb_title kb, km_content = kb_content kb,
         km_description = kb_description kb, km_tags = kb_tags kb,
         km_similarity = one_minus distance\<rparr>)"

definition search_knowledge_rows ::
  "(vector \<Rightarrow> vector \<Rightarrow> float8) \<Rightarrow> knowledge_entry list \<Rightarrow>
   vector option \<Rightarrow> float8 option \<Rightarrow> (knowledge_entry \<times> float8) list" where
  "search_knowledge_rows cosine_distance knowledge_base query_embedding match_threshold =
     sort_key snd
       [(kb, distance).
          kb \<leftarrow> knowledge_base, kb_embedding kb \<noteq> None,
          distance \<leftarrow> sql_distance cosine_distance (kb_embedding kb) query_embedding,
          sql_greater (one_minus distance) match_threshold]"

definition search_knowledge ::
  "(vector \<Rightarrow> vector \<Rightarrow> float8) \<Rightarrow> knowledge_entry list \<Rightarrow>
   vector option \<Rightarrow> float8 option \<Rightarrow> int option \<Rightarrow> sql_error + knowledge_match list" where
  "search_knowledge cosine_distance knowledge_base query_embedding match_threshold match_count =
     (case sql_limit match_count
             (search_knowledge_rows cosine_distance knowledge_base query_embedding
                match_threshold) of
        Inl err \<Rightarrow> Inl err
      | Inr rows \<Rightarrow> Inr (map knowledge_result rows))"

text \<open>Example tables: one completed and one unfinished document; chunks at the cosines
  0.6 and 0.8 to the query \<open>[1, 0]\<close>, one of the unfinished document, one without a vector
  and one whose vector is zero.\<close>

definition example_documents :: "document list" where
  "example_documents =
     [\<lparr>doc_id = ''d1'', doc_upload_status = completed\<rparr>,
      \<lparr>doc_id = ''d2'', doc_upload_status = processing\<rparr>]"

definition example_chunks :: "document_chunk list" where
  "example_chunks =
     [\<lparr>dc_id = ''c1'', dc_document_id = ''d1'', dc_content = ''first'', dc_chunk_index = 0,
       dc_metadata = ''{}'', dc_embedding = Some [3, 4]\<rparr>,
      \<lparr>dc_id = ''c2'', dc_document_id = ''d1'', dc_content = ''second'', dc_chunk_index = 1,
       dc_metadata = ''{}'', dc_embedding = Some [4, 3]\<rparr>,
      \<lparr>dc_id = ''c3'', dc_document_id = ''d2'', dc_content = ''third'', dc_chunk_index = 0,
       dc_metadata = ''{}'', dc_embedding = Some [1, 0]\<rparr>,
      \<lparr>dc_id = ''c4'', dc_document_id = ''d1'', dc_content = ''fourth'', dc_chunk_index = 2,
       dc_metadata = ''{}'', dc_embedding = None\<rparr>]"

definition example_zero_chunk :: document_chunk where
  "example_zero_chunk =
     \<lparr>dc_id = ''c5'', dc_document_id = ''d1'', dc_content = ''fifth'', dc_chunk_index = 3,
      dc_metadata = ''{}'', dc_embedding = Some [0, 0]\<rparr>"

definition example_knowledge :: "knowledge_entry list" where
  "example_knowledge =
     [\<lparr>kb_id = ''k1'', kb_title = ''Axle loads'', kb_content = ''limits'', kb_description = None,
       kb_tags = Some [''manual''], kb_embedding = Some [4, 3]\<rparr>,
      \<lparr>kb_id = ''k2'', kb_title = ''Draft'', kb_content = ''pending'', kb_description = None,
       kb_tags = None, kb_embedding = None\<rparr>]"

section \<open>Chat: retrieval and context assembly\<close>

record chat_message =
  role :: string
  msg_content :: string

record chat_body =
  message :: string
  conversationHistory :: "chat_message list option"

record chat_request =
  chat_method :: string
  chat_json :: "chat_body option"

record completion_request =
  completion_model :: string
  messages :: "chat_message list"
  max_tokens :: nat
  temperature :: real

text \<open>
  The services of a chat turn: the embedding service, the two remote procedure calls (the
  store answers with an error and no data, or with the rows) and the completion service.
\<close>

record chat_env =
  question_fetch :: "embedding_request \<Rightarrow> vector fetch_result"
  rpc_search_chunks :: "vector \<Rightarrow> real \<Rightarrow> int \<Rightarrow> string + chunk_match list"
  rpc_search_knowledge :: "vector \<Rightarrow> real \<Rightarrow> int \<Rightarrow> string + knowledge_match list"
  completion_fetch :: "completion_request \<Rightarrow> string fetch_result"

datatype chat_response = ChatPreflight | ChatOk string nat nat | ChatFailed string

definition nl :: string where
  "nl = [CHR 0x0A]"

text \<open>\<open>data\<close> of an RPC answer: \<open>null\<close> when the call failed.\<close>

definition rpc_data :: "string + 'a list \<Rightarrow> 'a list option" where
  "rpc_data r = (case r of Inl _ \<Rightarrow> None | Inr rows \<Rightarrow> Some rows)"

definition rpc_error_log :: "string \<Rightarrow> string + 'a list \<Rightarrow> effect list" where
  "rpc_error_log label r = (case r of Inl _ \<Rightarrow> [ConsoleError label] | Inr _ \<Rightarrow> [])"

definition chunks_section :: "chunk_match list option \<Rightarrow> string" where
  "chunks_section relevantChunks =
     (case relevantChunks of
        None \<Rightarrow> []
      | Some rows \<Rightarrow>
          if length rows > 0 then
            ''Relevant document excerpts:'' @ nl @ nl
            @ concat (map (\<lambda>(index, chunk).
                             ''['' @ show_nat (index + 1) @ ''] '' @ cm_content chunk @ nl @ nl)
                        (enumerate 0 rows))
          else [])"

definition knowledge_section :: "knowledge_match list option \<Rightarrow> string" where
  "knowledge_section relevantKnowledge =
     (case relevantKnowledge of
        None \<Rightarrow> []
      | Some rows \<Rightarrow>
          if length rows > 0 then
            ''Relevant knowledge base entries:'' @ nl @ nl
            @ concat (map (\<lambda>(index, entry).
                             ''[KB'' @ show_nat (index + 1) @ ''] '' @ km_title entry @ '': ''
                             @ km_content entry @ nl @ nl)
                        (enumerate 0 rows))
          else [])"

definition build_context :: "chunk_match list option \<Rightarrow> knowledge_match list option \<Rightarrow> string" where
  "build_context relevantChunks relevantKnowledge =
     chunks_section relevantChunks @ knowledge_section relevantKnowledge"

definition persona :: string where
  "persona =
     ''You are TALON, a specialized AI assistant for military vehicle load planning and transportation operations. Your expertise includes:'' @ nl
     @ nl
     @ ''- Military vehicle specifications and capabilities'' @ nl
     @ ''- Load planning procedures and calculations'' @ nl
     @ ''- Equipment and munition considerations'' @ nl
     @ ''- Transportation logistics and operations'' @ nl
     @ ''- Infrastructure requirements and constraints'' @ nl
     @ ''- Safety protocols and regulations'' @ nl
     @ nl
     @ ''Always provide accurate, professional, and actionable advice. If you don't have specific information, clearly state your limitations and suggest consulting official military documentation or subject matter experts.''"

definition closing :: string where
  "closing = ''Respond in a helpful, professional manner appropriate for military personnel.''"

definition systemPrompt :: "string \<Rightarrow> string" where
  "systemPrompt context =
     persona @ nl @ nl
     @ (if context \<noteq> []
        then ''Use the following context information to inform your response:'' @ nl @ nl @ context
        else [])
     @ nl @ nl @ closing"

definition recent_history :: "chat_message list option \<Rightarrow> chat_message list" where
  "recent_history history =
     (case history of None \<Rightarrow> [] | Some msgs \<Rightarrow> drop (length msgs - 6) msgs)"

definition result_count :: "'a list option \<Rightarrow> nat" where
  "result_count rows = (case rows of None \<Rightarrow> 0 | Some xs \<Rightarrow> length xs)"

definition completion_request_for ::
  "string \<Rightarrow> chat_message list \<Rightarrow> string \<Rightarrow> completion_request" where
  "completion_request_for context recentHistory userMessage =
     \<lparr>completion_model = ''gpt-4o-mini'',
      messages = [\<lparr>role = ''system'', msg_content = systemPrompt context\<rparr>]
                 @ recentHistory
                 @ [\<lparr>role = ''user'', msg_content = userMessage\<rparr>],
      max_tokens = 1000, temperature = 0.7\<rparr>"

definition serve_chat :: "chat_env \<Rightarrow> chat_request \<Rightarrow> chat_response \<times> effect list" where
  "serve_chat e req =
     (if chat_method req = ''OPTIONS'' then (ChatPreflight, [])
      else (case chat_json req of
         None \<Rightarrow> (ChatFailed ''Unexpected token in JSON'', [ConsoleError ''Error in chat function:''])
       | Some b \<Rightarrow>
          (case generateEmbedding_chat (question_fetch e) (message b) of
             Inl err \<Rightarrow> (ChatFailed (error_message err), [ConsoleError ''Error in chat function:''])
           | Inr questionEmbedding \<Rightarrow>
              (let chunksAnswer = rpc_search_chunks e questionEmbedding 0.7 5;
                   relevantChunks = rpc_data chunksAnswer;
                   log1 = rpc_error_log ''Error searching chunks:'' chunksAnswer;
                   knowledgeAnswer = rpc_search_knowledge e questionEmbedding 0.7 3;
                   relevantKnowledge = rpc_data knowledgeAnswer;
                   log2 = rpc_error_log ''Error searching knowledge base:'' knowledgeAnswer;
                   context = build_context relevantChunks relevantKnowledge;
                   recentHistory = recent_history (conversationHistory b)
               in case completion_fetch e (completion_request_for context recentHistory (message b)) of
                    NetworkFailure \<Rightarrow>
                      (ChatFailed ''fetch failed'', log1 @ log2 @ [ConsoleError ''Error in chat function:''])
                  | HttpError status errorText \<Rightarrow>
                      (ChatFailed (''OpenAI API error: '' @ show_nat status @ '' '' @ errorText),
                       log1 @ log2 @ [ConsoleError ''Error in chat function:''])
                  | HttpOk assistantResponse \<Rightarrow>
                      (ChatOk assistantResponse (result_count relevantChunks)
                         (result_count relevantKnowledge),
                       log1 @ log2)))))"

text \<open>An example turn: the chunk search fails, the knowledge search finds nothing, and the
  completion service answers.\<close>

definition example_chat_env :: chat_env where
  "example_chat_env =
     \<lparr>question_fetch = (\<lambda>r. HttpOk [1, 0]),
      rpc_search_chunks = (\<lambda>q t k. Inl ''connection refused''),
      rpc_search_knowledge = (\<lambda>q t k. Inr []),
      completion_fetch = (\<lambda>r. HttpOk ''Check the axle loads.'')\<rparr>"

definition example_chat_request :: chat_request where
  "example_chat_request =
     \<lparr>chat_method = ''POST'',
      chat_json = Some \<lparr>message = ''How do I load a truck?'', conversationHistory = None\<rparr>\<rparr>"

section \<open>Properties of the string helpers\<close>

lemma js_split_nonempty: "js_split sep s \<noteq> []"
  by (induction s) (auto split: list.splits)

lemma hd_js_split: "hd (js_split sep s) = takeWhile (\<lambda>c. c \<noteq> sep) s"
  by (induction s) (auto split: list.splits simp: js_split_nonempty)

lemma js_index_split_0: "js_index (js_split sep s) 0 = Inr (takeWhile (\<lambda>c. c \<noteq> sep) s)"
  using js_split_nonempty[of sep s] hd_js_split[of sep s]
  by (cases "js_split sep s") (auto simp: js_index_def)

lemma indexed_map_Cons:
  "map (\<lambda>k. g (i + k) ((l # ls) ! k)) [0..<length (l # ls)]
   = g i l # map (\<lambda>k. g (Suc i + k) (ls ! k)) [0..<length ls]"
proof -
  have "[0..<length (l # ls)] = 0 # map Suc [0..<length ls]"
    by (simp add: upt_conv_Cons map_Suc_upt del: upt_Suc)
  then show ?thesis by (simp add: comp_def)
qed

lemma concat_map_if: "concat (map (\<lambda>k. if P k then [f k] else []) xs) = map f (filter P xs)"
  by (induction xs) auto

lemma concat_map_if_string:
  "concat (map (\<lambda>k. if P k then f k else []) xs) = concat (map f (filter P xs))"
  by (induction xs) auto

lemmas string_eval = trim_def is_whitespace_def digit_char_def show_nat.simps

section \<open>The title of a URL entry\<close>

text \<open>
  C10. \<open>extractTitleFromContent\<close> never throws and its title is never empty, for every
  content, every URL and every behaviour of the URL parser: it is the trimmed first line of
  the content when that has more than 10 and fewer than 100 characters, otherwise
  \<open>Content from <hostname>\<close> when the URL parses, otherwise \<open>Web Content\<close>.
\<close>

theorem extractTitleFromContent_total:
  "\<exists>title. extractTitleFromContent url_hostname page url = Inr title \<and> title \<noteq> [] \<and>
     title = (let firstLine = trim (takeWhile (\<lambda>c. c \<noteq> CHR 0x0A) page) in
              if 10 < length firstLine \<and> length firstLine < 100 then firstLine
              else (case url_hostname url of
                      Some hostname \<Rightarrow> ''Content from '' @ hostname
                    | None \<Rightarrow> ''Web Content''))"
  by (auto simp: extractTitleFromContent_def js_index_split_0 Let_def new_URL_def
           split: option.splits)

theorem extractTitleFromContent_total_witness:
  "extractTitleFromContent (\<lambda>u. None) ''Loading a vehicle'' ''not a url'' = Inr ''Loading a vehicle''
   \<and> extractTitleFromContent (\<lambda>u. Some ''example.org'') ''short'' ''https://example.org/a''
       = Inr ''Content from example.org''
   \<and> extractTitleFromContent (\<lambda>u. None) ''short'' ''not a url'' = Inr ''Web Content''"
  using extractTitleFromContent_total[of "\<lambda>u. None" "''Loading a vehicle''" "''not a url''"]
        extractTitleFromContent_total[of "\<lambda>u. Some ''example.org''" "''short''" "''https://example.org/a''"]
        extractTitleFromContent_total[of "\<lambda>u. None" "''short''" "''not a url''"]
  by (auto simp: string_eval)

section \<open>CSV extraction\<close>

lemma parseCSV_loop_acc:
  "parseCSV_loop ls i acc
   = acc @ concat (map (\<lambda>k. csv_line_text (i + k) (ls ! k)) [0..<length ls])"
proof (induction ls arbitrary: i acc)
  case Nil
  then show ?case by simp
next
  case (Cons l ls)
  show ?case
    using Cons.IH[of "Suc i" "acc @ csv_line_text i l"]
    by (simp only: parseCSV_loop.simps indexed_map_Cons[of csv_line_text]) simp
qed

lemma parseCSV_fallback_loop_acc:
  "parseCSV_fallback_loop ls i acc
   = acc @ concat (map (\<lambda>k. csv_fallback_line_text (i + k) (ls ! k)) [0..<length ls])"
proof (induction ls arbitrary: i acc)
  case Nil
  then show ?case by simp
next
  case (Cons l ls)
  show ?case
    using Cons.IH[of "Suc i" "acc @ csv_fallback_line_text i l"]
    by (simp only: parseCSV_fallback_loop.simps indexed_map_Cons[of csv_fallback_line_text]) simp
qed

lemma csv_line_text_eq:
  "csv_line_text i l =
     (if trim l \<noteq> [] then
        [if i = 0 then ''Table Headers: '' @ js_join '', '' (csv_columns l)
         else ''Row '' @ show_nat i @ '': '' @ js_join '' | '' (csv_columns l)]
      else [])"
  by (simp add: csv_line_text_def csv_columns_def Let_def)

lemma csv_fallback_line_text_eq:
  "csv_fallback_line_text i l =
     (if trim l \<noteq> [] then
        (if i = 0 then ''CSV Headers: '' @ trim l @ [CHR 0x0A, CHR 0x0A]
         else ''Row '' @ show_nat i @ '': '' @ trim l @ [CHR 0x0A])
      else [])"
  by (simp add: csv_fallback_line_text_def Let_def)

lemma parseCSVToText_spec: "parseCSVToText csv = spec_csv_text (js_split CHR 0x0A csv)"
  unfolding parseCSVToText_def spec_csv_text_def parseCSV_loop_acc
  by (simp add: csv_line_text_eq concat_map_if)

lemma parseCSVToText_fallback_spec:
  "parseCSVToText_fallback csv = spec_csv_fallback_text (js_split CHR 0x0A csv)"
  unfolding parseCSVToText_fallback_def spec_csv_fallback_text_def parseCSV_fallback_loop_acc
  by (simp add: csv_fallback_line_text_eq concat_map_if_string)

lemma parseCSVToText_example:
  "parseCSVToText (''a,b'' @ [CHR 0x0A] @ ''1,2'' @ [CHR 0x0A] @ ''3,4'')
   = ''Table Headers: a, b'' @ [CHR 0x0A] @ ''Row 1: 1 | 2'' @ [CHR 0x0A] @ ''Row 2: 3 | 4''"
  by (simp add: parseCSVToText_def csv_line_text_def strip_quotes_def string_eval)

lemma parseCSVToText_fallback_example:
  "parseCSVToText_fallback (''a,b'' @ [CHR 0x0A] @ ''1,2'' @ [CHR 0x0A] @ ''3,4'')
   = ''CSV Headers: a,b'' @ [CHR 0x0A, CHR 0x0A] @ ''Row 1: 1,2'' @ [CHR 0x0A] @ ''Row 2: 3,4''
     @ [CHR 0x0A]"
  by (simp add: parseCSVToText_fallback_def csv_fallback_line_text_def string_eval)

text \<open>
  C7, as the claim states it, fails on the second CSV extractor of the repository: for the
  input of the scenario its text contains neither \<open>Table Headers: a, b\<close> nor
  \<open>Row 1: 1 | 2\<close>.
\<close>

theorem parseCSVToText_fallback_counterexample:
  "\<not> js_includes (parseCSVToText_fallback (''a,b'' @ [CHR 0x0A] @ ''1,2'' @ [CHR 0x0A] @ ''3,4''))
        ''Table Headers: a, b''
   \<and> \<not> js_includes (parseCSVToText_fallback (''a,b'' @ [CHR 0x0A] @ ''1,2'' @ [CHR 0x0A] @ ''3,4''))
        ''Row 1: 1 | 2''"
  unfolding parseCSVToText_fallback_example by simp

text \<open>
  C7, amended. The column-splitting \<open>parseCSVToText\<close> emits, joined by newlines, the first
  line as \<open>Table Headers: <cols>\<close> with the columns joined by a comma and a space, and
  every later non-blank line as \<open>Row N: <cols>\<close> with the columns joined by \<open> | \<close>, where
  \<open>N\<close> is the line's position after the first line, counted from 1 over all lines, blank
  ones included; a blank line emits nothing, the first line included. On the input of the
  scenario the text contains \<open>Table Headers: a, b\<close> and \<open>Row 1: 1 | 2\<close>. The
  \<open>parseCSVToText\<close> of the processor that falls back from the conversion service keeps
  each trimmed line unsplit: \<open>CSV Headers: <line>\<close> and an empty line for the first line,
  \<open>Row N: <line>\<close> for the later ones.
\<close>

theorem parseCSVToText_format:
  "parseCSVToText csv = spec_csv_text (js_split CHR 0x0A csv)
   \<and> js_includes (parseCSVToText (''a,b'' @ [CHR 0x0A] @ ''1,2'' @ [CHR 0x0A] @ ''3,4''))
         ''Table Headers: a, b''
   \<and> js_includes (parseCSVToText (''a,b'' @ [CHR 0x0A] @ ''1,2'' @ [CHR 0x0A] @ ''3,4''))
         ''Row 1: 1 | 2''
   \<and> parseCSVToText_fallback csv = spec_csv_fallback_text (js_split CHR 0x0A csv)"
  unfolding parseCSVToText_example
  by (simp add: parseCSVToText_spec parseCSVToText_fallback_spec)

theorem parseCSVToText_format_witness:
  "parseCSVToText (''h1,h2'' @ [CHR 0x0A, CHR 0x0A] @ ''x,\"y\"'')
     = ''Table Headers: h1, h2'' @ [CHR 0x0A] @ ''Row 2: x | y''
   \<and> parseCSVToText_fallback (''h1,h2'' @ [CHR 0x0A, CHR 0x0A] @ ''x,y'')
     = ''CSV Headers: h1,h2'' @ [CHR 0x0A, CHR 0x0A] @ ''Row 2: x,y'' @ [CHR 0x0A]"
  using parseCSVToText_format[of "''h1,h2'' @ [CHR 0x0A, CHR 0x0A] @ ''x,\"y\"''"]
        parseCSVToText_format[of "''h1,h2'' @ [CHR 0x0A, CHR 0x0A] @ ''x,y''"]
  by (simp add: spec_csv_text_def spec_csv_fallback_text_def csv_columns_def strip_quotes_def
        string_eval upt_conv_Cons)

section \<open>Embedding requests\<close>

lemma embedding_request_knowledge_truncates:
  "length (input (embedding_request_knowledge text)) \<le> maxLength
   \<and> input (embedding_request_knowledge text) = take maxLength text
   \<and> (length text \<le> maxLength \<longrightarrow> input (embedding_request_knowledge text) = text)"
  by (simp add: embedding_request_knowledge_def js_substring0_def Let_def)

text \<open>
  C6. The manual-knowledge and URL functions cut the text to 8000 characters (the lemma
  above); the chat function does not: a message of 8001 characters is sent whole to the
  embedding service. The copy of the document processors does not cut either; the chunks
  \<open>chunkText\<close> hands it are at most 1001 characters long, so there nothing is lost.
\<close>

theorem generateEmbedding_chat_untruncated:
  "input (embedding_request_chat (replicate 8001 CHR ''a'')) = replicate 8001 CHR ''a''
   \<and> length (input (embedding_request_chat (replicate 8001 CHR ''a''))) > maxLength
   \<and> length (input (embedding_request_document (replicate 8001 CHR ''a''))) > maxLength
   \<and> generateEmbedding_chat fetch (replicate 8001 CHR ''a'')
       = openai_result (fetch \<lparr>model = ''text-embedding-ada-002'', input = replicate 8001 CHR ''a''\<rparr>)"
  by (simp add: embedding_request_chat_def embedding_request_document_def maxLength_def
        generateEmbedding_chat_def)

section \<open>Chunking\<close>

lemma next_start_gt: "startIdx < next_start startIdx endIdx overlap"
  by (simp add: next_start_def)

lemma chunkText_loop_returns:
  "\<exists>result. chunkText_loop text maxChunkSize overlap startIdx chunks = Some result"
proof (induction "nat (int (length text) - startIdx)" arbitrary: startIdx chunks rule: less_induct)
  case less
  show ?case
  proof (cases "startIdx < int (length text)")
    case True
    define s' where "s' = next_start startIdx (window_end text maxChunkSize startIdx) overlap"
    have "startIdx < s'" unfolding s'_def by (rule next_start_gt)
    with True have "nat (int (length text) - s') < nat (int (length text) - startIdx)" by simp
    from less[OF this] obtain result where
      "chunkText_loop text maxChunkSize overlap s'
         (push_chunk chunks text startIdx (window_end text maxChunkSize startIdx)) = Some result"
      by blast
    with True show ?thesis
      by (subst chunkText_loop.simps) (simp add: s'_def)
  next
    case False
    then show ?thesis by (subst chunkText_loop.simps) simp
  qed
qed

lemma push_chunk_acc: "push_chunk chunks text s e = chunks @ push_chunk [] text s e"
  by (simp add: push_chunk_def Let_def)

lemma chunkText_loop_acc:
  "chunkText_loop text maxChunkSize overlap startIdx chunks
   = map_option ((@) chunks) (chunkText_loop text maxChunkSize overlap startIdx [])"
proof (induction "nat (int (length text) - startIdx)" arbitrary: startIdx chunks rule: less_induct)
  case less
  show ?case
  proof (cases "startIdx < int (length text)")
    case True
    define e where "e = window_end text maxChunkSize startIdx"
    define s' where "s' = next_start startIdx e overlap"
    have "startIdx < s'" unfolding s'_def by (rule next_start_gt)
    with True have m: "nat (int (length text) - s') < nat (int (length text) - startIdx)" by simp
    have "chunkText_loop text maxChunkSize overlap startIdx chunks
          = chunkText_loop text maxChunkSize overlap s' (push_chunk chunks text startIdx e)"
      using True by (subst chunkText_loop.simps) (simp add: s'_def e_def)
    also have "\<dots> = map_option ((@) (chunks @ push_chunk [] text startIdx e))
                        (chunkText_loop text maxChunkSize overlap s' [])"
      using less[OF m, of "push_chunk chunks text startIdx e"]
            push_chunk_acc[of chunks "text" startIdx e]
      by simp
    also have "\<dots> = map_option ((@) chunks)
                        (map_option ((@) (push_chunk [] text startIdx e))
                           (chunkText_loop text maxChunkSize overlap s' []))"
      by (cases "chunkText_loop text maxChunkSize overlap s' []") simp_all
    also have "map_option ((@) (push_chunk [] text startIdx e))
                 (chunkText_loop text maxChunkSize overlap s' [])
               = chunkText_loop text maxChunkSize overlap s' (push_chunk [] text startIdx e)"
      using less[OF m, of "push_chunk [] text startIdx e"] by simp
    also have "\<dots> = chunkText_loop text maxChunkSize overlap startIdx []"
      using True by (subst (2) chunkText_loop.simps) (simp add: s'_def e_def)
    finally show ?thesis .
  next
    case False
    then show ?thesis
      by (subst chunkText_loop.simps, subst (2) chunkText_loop.simps) simp
  qed
qed

lemma chunkText_loop_done:
  "int (length text) \<le> startIdx \<Longrightarrow>
   chunkText_loop text maxChunkSize overlap startIdx chunks = Some chunks"
  by (subst chunkText_loop.simps) simp

lemma chunkText_returns: "\<exists>chunks. chunkText text maxChunkSize overlap = Some chunks"
  unfolding chunkText_def by (rule chunkText_loop_returns)

lemma window_end_short:
  "int (length text) \<le> startIdx + maxChunkSize \<Longrightarrow>
   window_end text maxChunkSize startIdx = int (length text)"
  by (simp add: window_end_def Let_def)

lemma js_slice_whole: "js_slice text 0 (int (length text)) = text"
  by (simp add: js_slice_def Let_def)

lemmas chunk_eval =
  chunkText_def chunkText_loop.simps push_chunk_def next_start_def window_end_def
  lastIndexOf_def js_slice_def trim_def is_whitespace_def Let_def

text \<open>
  C5. For every text, every window size and every overlap (negative ones and overlaps at
  or above the window size included), each iteration moves the window start to
  \<open>max (start + 1) (end - overlap)\<close>, which lies strictly after the previous start, and
  the loop returns from every start and every list of chunks collected so far; so
  \<open>chunkText\<close> returns. The claim's case, a window size of at least 1, is an instance.
\<close>

theorem chunkText_terminates:
  "next_start startIdx (window_end text maxChunkSize startIdx) overlap
     = max (startIdx + 1) (window_end text maxChunkSize startIdx - overlap)
   \<and> startIdx < next_start startIdx (window_end text maxChunkSize startIdx) overlap
   \<and> (\<exists>result. chunkText_loop text maxChunkSize overlap startIdx chunks = Some result)
   \<and> (\<exists>result. chunkText text maxChunkSize overlap = Some result)"
  using chunkText_loop_returns[of "text" maxChunkSize overlap startIdx chunks]
        chunkText_returns[of "text" maxChunkSize overlap]
  by (simp add: next_start_def)

theorem chunkText_terminates_witness:
  "(0::int) < next_start 0 (window_end ''abc'' 2 0) 5
   \<and> (\<exists>result. chunkText ''abc'' 2 5 = Some result)"
  using chunkText_terminates[of 0 "''abc''" 2 5 "[]"]
  by blast

lemma chunkText_scenario:
  "chunkText ''A. B. C.'' 4 1
     = Some [\<lparr>content = ''A. B.'', startIndex = 0, endIndex = 5\<rparr>,
             \<lparr>content = ''. C.'', startIndex = 4, endIndex = 8\<rparr>,
             \<lparr>content = ''.'', startIndex = 7, endIndex = 8\<rparr>]"
  by code_simp

lemma chunkText_tail_chunks:
  "chunkText ''hello'' 1000 200
     = Some [\<lparr>content = ''hello'', startIndex = 0, endIndex = 5\<rparr>,
             \<lparr>content = ''ello'', startIndex = 1, endIndex = 5\<rparr>,
             \<lparr>content = ''llo'', startIndex = 2, endIndex = 5\<rparr>,
             \<lparr>content = ''lo'', startIndex = 3, endIndex = 5\<rparr>,
             \<lparr>content = ''o'', startIndex = 4, endIndex = 5\<rparr>]"
  by code_simp

lemma chunkText_legacy_empty:
  "chunkText_legacy [] 10 0 = Some [\<lparr>content = [], startIndex = 0, endIndex = 0\<rparr>]"
  by (simp add: chunkText_legacy_def)

text \<open>
  C4, as the claim states it, fails: a text of one space is not empty and shorter than a
  window of 10, and chunking it yields no chunk, since a chunk that trims to nothing is
  skipped.
\<close>

theorem chunkText_blank_counterexample:
  "'' '' \<noteq> [] \<and> int (length '' '') < 10 \<and> chunkText '' '' 10 0 = Some []"
  by (simp add: chunk_eval)

text \<open>
  C4, amended. For every window size above 0 and every overlap, chunking the empty text
  yields no chunk. For a non-empty text shorter than the window the first window is the
  whole text: when the text is all white space it emits nothing, otherwise the first chunk
  has the trimmed text as content and the offsets 0 and the length of the text; with an
  overlap of 0 nothing follows it. The legacy \<open>chunkText\<close> returns, for such a text,
  exactly one chunk whose content is the whole text.
\<close>

theorem chunkText_short_input:
  assumes "0 < maxChunkSize"
  shows "chunkText [] maxChunkSize overlap = Some []
    \<and> (text \<noteq> [] \<and> int (length text) < maxChunkSize \<longrightarrow>
         (\<exists>rest. chunkText text maxChunkSize overlap = Some (first_chunk text @ rest)
                \<and> (overlap = 0 \<longrightarrow> rest = []))
         \<and> chunkText_legacy text maxChunkSize overlap
             = Some [\<lparr>content = text, startIndex = 0, endIndex = int (length text)\<rparr>])"
proof (intro conjI impI)
  show "chunkText [] maxChunkSize overlap = Some []"
    unfolding chunkText_def by (subst chunkText_loop.simps) simp
next
  assume a: "text \<noteq> [] \<and> int (length text) < maxChunkSize"
  have we: "window_end text maxChunkSize 0 = int (length text)"
    using a by (simp add: window_end_short)
  have pc: "push_chunk [] text 0 (int (length text)) = first_chunk text"
    by (simp add: push_chunk_def first_chunk_def js_slice_whole Let_def)
  have step: "chunkText text maxChunkSize overlap
      = chunkText_loop text maxChunkSize overlap (next_start 0 (int (length text)) overlap)
          (first_chunk text)"
    unfolding chunkText_def using a by (subst chunkText_loop.simps) (simp add: we pc)
  obtain rest where rest:
    "chunkText_loop text maxChunkSize overlap (next_start 0 (int (length text)) overlap) []
     = Some rest"
    using chunkText_loop_returns by blast
  have res: "chunkText text maxChunkSize overlap = Some (first_chunk text @ rest)"
    using step rest chunkText_loop_acc[of "text" maxChunkSize overlap _ "first_chunk text"]
    by simp
  have "rest = []" if "overlap = 0"
  proof -
    have "next_start 0 (int (length text)) overlap = int (length text)"
      using that a by (cases "text") (simp_all add: next_start_def)
    with rest show ?thesis by (simp add: chunkText_loop_done)
  qed
  with res show "\<exists>rest. chunkText text maxChunkSize overlap = Some (first_chunk text @ rest)
                       \<and> (overlap = 0 \<longrightarrow> rest = [])"
    by blast
next
  assume "text \<noteq> [] \<and> int (length text) < maxChunkSize"
  then show "chunkText_legacy text maxChunkSize overlap
             = Some [\<lparr>content = text, startIndex = 0, endIndex = int (length text)\<rparr>]"
    by (simp add: chunkText_legacy_def)
qed

theorem chunkText_short_input_witness:
  "(0::int) < 10 \<and> '' hi '' \<noteq> [] \<and> int (length '' hi '') < 10
   \<and> chunkText [] 10 0 = Some []
   \<and> chunkText '' hi '' 10 0 = Some [\<lparr>content = ''hi'', startIndex = 0, endIndex = 4\<rparr>]
   \<and> chunkText_legacy '' hi '' 10 0 = Some [\<lparr>content = '' hi '', startIndex = 0, endIndex = 4\<rparr>]"
  using chunkText_short_input[of 10 0 "'' hi ''"]
  by (auto simp: first_chunk_def trim_def is_whitespace_def)

section \<open>Document ingestion\<close>

lemma drop_pauses_append: "drop_pauses (xs @ ys) = drop_pauses xs @ drop_pauses ys"
  by (induction xs rule: drop_pauses.induct) auto

lemma inserted_rows_append: "inserted_rows (xs @ ys) = inserted_rows xs @ inserted_rows ys"
  by (induction xs rule: inserted_rows.induct) auto

lemma status_updates_append: "status_updates (xs @ ys) = status_updates xs @ status_updates ys"
  by (induction xs rule: status_updates.induct) auto

lemma inserted_rows_drop_pauses: "inserted_rows (drop_pauses xs) = inserted_rows xs"
  by (induction xs rule: drop_pauses.induct) auto

lemma status_updates_drop_pauses: "status_updates (drop_pauses xs) = status_updates xs"
  by (induction xs rule: drop_pauses.induct) auto

lemma set_drop_pauses: "set (drop_pauses xs) \<subseteq> set xs"
  by (induction xs rule: drop_pauses.induct) auto

lemma process_chunk_cases:
  "process_chunk gen e docId k chunk = [ConsoleError (''Failed to process chunk '' @ show_nat k @ '':'')]
   \<or> process_chunk gen e docId k chunk = [ConsoleError (''Failed to insert chunk '' @ show_nat k @ '':'')]
   \<or> (\<exists>emb. process_chunk gen e docId k chunk =
         [InsertChunk \<lparr>document_id = docId, chunk_index = k, chunk_content = content chunk,
                      token_count = estimateTokens (content chunk), embedding = emb,
                      start_char = startIndex chunk, end_char = endIndex chunk\<rparr>])"
  by (auto simp: process_chunk_def Let_def split: sum.splits option.splits)

lemma drop_pauses_process_chunk: "drop_pauses (process_chunk gen e docId k chunk) = process_chunk gen e docId k chunk"
  using process_chunk_cases[of gen e docId k chunk] by auto

lemma drop_pauses_concat_chunks:
  "drop_pauses (concat (map (\<lambda>k. process_chunk gen e docId (f k) (g k)) ks))
   = concat (map (\<lambda>k. process_chunk gen e docId (f k) (g k)) ks)"
  by (induction ks) (auto simp: drop_pauses_append drop_pauses_process_chunk)

lemma batch_effects:
  "map (\<lambda>(index, chunk). process_chunk gen e docId (i + index) chunk) (enumerate 0 (take n (drop i chunks)))
   = map (\<lambda>k. process_chunk gen e docId k (chunks ! k)) [i..<min (i + n) (length chunks)]"
  (is "?l = ?r")
proof (rule nth_equalityI)
  show "length ?l = length ?r" by auto
next
  fix j assume "j < length ?l"
  then have j: "j < n" "i + j < length chunks" by auto
  then have "[i..<min (i + n) (length chunks)] ! j = i + j"
    by (intro nth_upt) simp
  with j show "?l ! j = ?r ! j"
    by (simp add: nth_enumerate_eq)
qed

lemma drop_pauses_process_batches:
  "drop_pauses (process_batches gen e docId chunks i)
   = concat (map (\<lambda>k. process_chunk gen e docId k (chunks ! k)) [i..<length chunks])"
proof (induction gen e docId chunks i rule: process_batches.induct)
  case (1 gen e docId chunks i)
  show ?case
  proof (cases "i < length chunks")
    case True
    have split: "[i..<length chunks] = [i..<min (i + batchSize) (length chunks)] @ [i + batchSize..<length chunks]"
    proof (cases "i + batchSize \<le> length chunks")
      case True
      then show ?thesis using upt_add_eq_append[of i "i + batchSize" "length chunks - (i + batchSize)"]
        by (simp add: min_def)
    next
      case False
      then show ?thesis by (simp add: min_def)
    qed
    have "drop_pauses (process_batches gen e docId chunks i)
          = concat (map (\<lambda>k. process_chunk gen e docId k (chunks ! k)) [i..<min (i + batchSize) (length chunks)])
            @ drop_pauses (process_batches gen e docId chunks (i + batchSize))"
      using True
      by (subst process_batches.simps)
         (simp add: Let_def batch_effects drop_pauses_append drop_pauses_concat_chunks)
    also have "\<dots> = concat (map (\<lambda>k. process_chunk gen e docId k (chunks ! k)) [i..<min (i + batchSize) (length chunks)])
            @ concat (map (\<lambda>k. process_chunk gen e docId k (chunks ! k)) [i + batchSize..<length chunks])"
      using 1[OF True refl] by simp
    also have "\<dots> = concat (map (\<lambda>k. process_chunk gen e docId k (chunks ! k)) [i..<length chunks])"
      using arg_cong[OF split, of "\<lambda>ks. concat (map (\<lambda>k. process_chunk gen e docId k (chunks ! k)) ks)"]
      by simp
    finally show ?thesis .
  next
    case False
    then show ?thesis by (subst process_batches.simps) simp
  qed
qed

lemma status_updates_process_chunk: "status_updates (process_chunk gen e docId k chunk) = []"
  using process_chunk_cases[of gen e docId k chunk] by auto

lemma status_updates_concat_chunks:
  "status_updates (concat (map (\<lambda>k. process_chunk gen e docId k (chunks ! k)) ks)) = []"
  by (induction ks) (auto simp: status_updates_append status_updates_process_chunk)

lemma status_updates_process_batches: "status_updates (process_batches gen e docId chunks i) = []"
  using status_updates_drop_pauses[of "process_batches gen e docId chunks i"]
  by (simp add: drop_pauses_process_batches status_updates_concat_chunks)

lemma inserted_rows_concat:
  "inserted_rows (concat (map f ks)) = concat (map (\<lambda>k. inserted_rows (f k)) ks)"
  by (induction ks) (auto simp: inserted_rows_append)

lemma inserted_rows_process_batches:
  "inserted_rows (process_batches gen e docId chunks 0)
   = concat (map (\<lambda>k. inserted_rows (process_chunk gen e docId k (chunks ! k))) [0..<length chunks])"
  using inserted_rows_drop_pauses[of "process_batches gen e docId chunks 0"]
  by (simp add: drop_pauses_process_batches inserted_rows_concat)

lemma chunk_index_process_chunk:
  "map chunk_index (inserted_rows (process_chunk gen e docId k (chunks ! k)))
   = (if stored gen e docId chunks k then [k] else [])"
  using process_chunk_cases[of gen e docId k "chunks ! k"] by (auto simp: stored_def)

lemma inserted_row_process_chunk:
  "row \<in> set (inserted_rows (process_chunk gen e docId k chunk)) \<Longrightarrow>
   chunk_index row = k \<and> chunk_content row = content chunk \<and> document_id row = docId
   \<and> start_char row = startIndex chunk \<and> end_char row = endIndex chunk"
  using process_chunk_cases[of gen e docId k chunk] by auto

lemma stored_iff:
  "stored gen e docId chunks k =
     (\<exists>emb. gen (embedding_fetch e k) (content (chunks ! k)) = Inr emb
          \<and> insert_error e \<lparr>document_id = docId, chunk_index = k,
                               chunk_content = content (chunks ! k),
                               token_count = estimateTokens (content (chunks ! k)),
                               embedding = emb, start_char = startIndex (chunks ! k),
                               end_char = endIndex (chunks ! k)\<rparr> = None)"
  by (auto simp: stored_def process_chunk_def Let_def split: sum.splits option.splits)

text \<open>
  C2, as the claim states it, fails: in the run for the two-chunk file whose first embedding
  call fails, two chunks are produced and only index 1 is stored; index 0 is missing.
\<close>

theorem chunk_index_gap_counterexample:
  "map_option fst (serve_basic (example_env (\<lambda>k. k = 0)) example_request) = Some (Ok200 2)
   \<and> map_option (\<lambda>r. map chunk_index (inserted_rows (snd r)))
        (serve_basic (example_env (\<lambda>k. k = 0)) example_request) = Some [1]"
  by code_simp

text \<open>
  C2, amended. The rows a run stores carry, in order, exactly the positions of the chunk
  list whose embedding and insertion both succeeded: a stored row has the index of its
  chunk in the list, that chunk's content and the document id of the run, and when no
  chunk fails the indices are \<open>0, \<dots>, n - 1\<close> with none missing. A chunk whose embedding
  or insertion fails is not stored, and its index is absent.
\<close>

theorem chunk_index_of_stored_chunks:
  "map chunk_index (inserted_rows (process_batches gen e docId chunks 0))
     = filter (stored gen e docId chunks) [0..<length chunks]
   \<and> (\<forall>row \<in> set (inserted_rows (process_batches gen e docId chunks 0)).
         chunk_index row < length chunks
         \<and> chunk_content row = content (chunks ! chunk_index row)
         \<and> document_id row = docId)
   \<and> ((\<forall>k < length chunks. stored gen e docId chunks k) \<longrightarrow>
         map chunk_index (inserted_rows (process_batches gen e docId chunks 0)) = [0..<length chunks])
   \<and> stored gen e docId chunks k =
         (\<exists>emb. gen (embedding_fetch e k) (content (chunks ! k)) = Inr emb
              \<and> insert_error e \<lparr>document_id = docId, chunk_index = k,
                                   chunk_content = content (chunks ! k),
                                   token_count = estimateTokens (content (chunks ! k)),
                                   embedding = emb, start_char = startIndex (chunks ! k),
                                   end_char = endIndex (chunks ! k)\<rparr> = None)"
proof -
  have "map chunk_index (inserted_rows (process_batches gen e docId chunks 0))
        = concat (map (\<lambda>k. map chunk_index (inserted_rows (process_chunk gen e docId k (chunks ! k))))
                    [0..<length chunks])"
    by (simp add: inserted_rows_process_batches map_concat comp_def)
  also have "\<dots> = concat (map (\<lambda>k. if stored gen e docId chunks k then [k] else []) [0..<length chunks])"
    by (simp only: chunk_index_process_chunk)
  also have "\<dots> = filter (stored gen e docId chunks) [0..<length chunks]"
    using concat_map_if[of "stored gen e docId chunks" "\<lambda>k. k" "[0..<length chunks]"] by simp
  finally have idx: "map chunk_index (inserted_rows (process_batches gen e docId chunks 0))
        = filter (stored gen e docId chunks) [0..<length chunks]" .
  have all: "map chunk_index (inserted_rows (process_batches gen e docId chunks 0)) = [0..<length chunks]"
    if "\<forall>k < length chunks. stored gen e docId chunks k"
  proof -
    from that have "filter (stored gen e docId chunks) [0..<length chunks] = [0..<length chunks]"
      by (intro filter_True) simp
    with idx show ?thesis by simp
  qed
  have rows: "chunk_index row < length chunks
        \<and> chunk_content row = content (chunks ! chunk_index row) \<and> document_id row = docId"
    if "row \<in> set (inserted_rows (process_batches gen e docId chunks 0))" for row
  proof -
    from that obtain k where k: "k < length chunks"
      and row: "row \<in> set (inserted_rows (process_chunk gen e docId k (chunks ! k)))"
      by (auto simp: inserted_rows_process_batches)
    from inserted_row_process_chunk[OF row] k show ?thesis by simp
  qed
  from idx all rows stored_iff[of gen e docId chunks k] show ?thesis by blast
qed

theorem chunk_index_of_stored_chunks_witness:
  "map chunk_index
     (inserted_rows
        (process_batches generateEmbedding_document (example_env (\<lambda>k. False)) (Some ''d1'')
           [\<lparr>content = ''ab'', startIndex = 0, endIndex = 2\<rparr>,
            \<lparr>content = ''b'', startIndex = 1, endIndex = 2\<rparr>] 0))
   = [0, 1]"
proof -
  have "\<forall>k. stored generateEmbedding_document (example_env (\<lambda>k. False)) (Some ''d1'')
           [\<lparr>content = ''ab'', startIndex = 0, endIndex = 2\<rparr>,
            \<lparr>content = ''b'', startIndex = 1, endIndex = 2\<rparr>] k"
    by (simp add: stored_def process_chunk_def generateEmbedding_document_def openai_result_def
          example_env_def Let_def)
  with chunk_index_of_stored_chunks[of generateEmbedding_document "example_env (\<lambda>k. False)" "Some ''d1''"
          "[\<lparr>content = ''ab'', startIndex = 0, endIndex = 2\<rparr>,
            \<lparr>content = ''b'', startIndex = 1, endIndex = 2\<rparr>]"]
  show ?thesis by (simp add: upt_conv_Cons)
qed

lemma chunkText_ab:
  "chunkText ''ab'' 1000 200
     = Some [\<lparr>content = ''ab'', startIndex = 0, endIndex = 2\<rparr>,
             \<lparr>content = ''b'', startIndex = 1, endIndex = 2\<rparr>]"
  by code_simp


lemma try_block_success:
  assumes "bodyUsed req = False" "body req = Some b" "download_error e = None"
    "extraction e = Inr text" "trim text \<noteq> []" "chunker text = Some chunks"
  shows "try_block chunker gen msg e req =
     Some \<lparr>outcome = Inr (length chunks),
           effects = UpdateStatus (documentId b) processing
                     # process_batches gen e (documentId b) chunks 0
                     @ [UpdateStatus (documentId b) completed],
           req_after = req\<lparr>bodyUsed := True\<rparr>, documentId_var = documentId b\<rparr>"
  using assms by (simp add: try_block_def req_json_def Let_def)

lemma try_block_thrown:
  assumes "bodyUsed req = False" "body req = Some b"
    "download_error e \<noteq> None \<or> (\<exists>err. extraction e = Inl err)
     \<or> (\<exists>text. extraction e = Inr text \<and> trim text = [])"
  shows "\<exists>err. try_block chunker gen msg e req =
     Some \<lparr>outcome = Inl err, effects = [UpdateStatus (documentId b) processing],
           req_after = req\<lparr>bodyUsed := True\<rparr>, documentId_var = documentId b\<rparr>"
  using assms by (auto simp: try_block_def req_json_def Let_def split: option.splits sum.splits)

lemma try_block_body_used:
  "try_block chunker gen msg e req = Some r \<Longrightarrow> bodyUsed (req_after r)"
  by (auto simp: try_block_def req_json_def Let_def split: option.splits sum.splits if_splits)

lemma try_block_no_failed:
  "try_block chunker gen msg e req = Some r \<Longrightarrow> (t, failed) \<notin> set (status_updates (effects r))"
  by (auto simp: try_block_def req_json_def Let_def status_updates_append status_updates_process_batches
           split: option.splits sum.splits if_splits)

lemma catch_reread_no_update:
  "bodyUsed (req_after r) \<Longrightarrow>
   catch_reread r err = (Failed500 (error_message err), effects r @ [ConsoleError ''Error processing document:''])"
  by (simp add: catch_reread_def req_json_def truthy_def)

lemma serve_basic_never_marks_failed:
  assumes "serve_basic e req = Some (resp, effs)"
  shows "(t, failed) \<notin> set (status_updates effs)"
proof (cases "req_method req = ''OPTIONS''")
  case True
  with assms show ?thesis by (simp add: serve_basic_def)
next
  case False
  with assms obtain r where r: "try_block (\<lambda>text. chunkText text 1000 200) generateEmbedding_document
        ''No text content could be extracted from the file'' e req = Some r"
    by (auto simp: serve_basic_def split: option.splits)
  show ?thesis
  proof (cases "outcome r")
    case (Inr n)
    with assms False r have "effs = effects r" by (simp add: serve_basic_def)
    with try_block_no_failed[OF r] show ?thesis by simp
  next
    case (Inl err)
    with assms False r have "effs = effects r @ [ConsoleError ''Error processing document:'']"
      by (simp add: serve_basic_def catch_reread_no_update[OF try_block_body_used[OF r]])
    with try_block_no_failed[OF r] show ?thesis by (simp add: status_updates_append)
  qed
qed

lemma serve_enhanced_marks_failed:
  assumes "req_method req \<noteq> ''OPTIONS''" "bodyUsed req = False" "body req = Some b"
    "documentId b = Some d" "d \<noteq> []"
    "download_error e \<noteq> None \<or> (\<exists>err. extraction e = Inl err)
     \<or> (\<exists>text. extraction e = Inr text \<and> trim text = [])"
  shows "\<exists>details effs. serve_enhanced e req = Some (Failed500 details, effs)
     \<and> status_updates effs = [(Some d, processing), (Some d, failed)]
     \<and> status_history pending d effs = [pending, processing, failed]"
proof -
  from try_block_thrown[OF assms(2,3,6)] obtain err where
    "try_block (\<lambda>text. chunkText text 1000 200) generateEmbedding_document
        ''No text content could be extracted from the file'' e req =
     Some \<lparr>outcome = Inl err, effects = [UpdateStatus (documentId b) processing],
           req_after = req\<lparr>bodyUsed := True\<rparr>, documentId_var = documentId b\<rparr>"
    by blast
  with assms(1,4,5) show ?thesis
    by (simp add: serve_enhanced_def catch_outer_def truthy_def)
qed

lemma serve_unstructured_marks_failed:
  assumes "req_method req \<noteq> ''OPTIONS''" "bodyUsed req = False" "body req = Some b"
    "documentId b = Some d" "d \<noteq> []"
    "download_error e \<noteq> None \<or> (\<exists>err. extraction e = Inl err)
     \<or> (\<exists>text. extraction e = Inr text \<and> trim text = [])"
  shows "\<exists>details effs. serve_unstructured chunkMarkdown e req = Some (Failed500 details, effs)
     \<and> status_updates effs = [(Some d, processing), (Some d, failed)]
     \<and> status_history pending d effs = [pending, processing, failed]"
proof -
  from try_block_thrown[OF assms(2,3,6)] obtain err where
    "try_block (\<lambda>text. Some (chunkMarkdown text 1000 200)) generateEmbedding_markdown
        ''No content could be extracted from the file'' e req =
     Some \<lparr>outcome = Inl err, effects = [UpdateStatus (documentId b) processing],
           req_after = req\<lparr>bodyUsed := True\<rparr>, documentId_var = documentId b\<rparr>"
    by blast
  with assms(1,4,5) show ?thesis
    by (simp add: serve_unstructured_def catch_outer_def truthy_def)
qed

text \<open>
  C3. In the later processors a run that throws after the update to \<open>processing\<close> marks
  the document \<open>failed\<close> (the two lemmas above). The first processor never does (lemma
  \<open>serve_basic_never_marks_failed\<close>): its handler reads the request body a second time,
  which always rejects, so it finds no document id. In the run below extraction throws;
  the only status update is the one to \<open>processing\<close>, and the document stays there,
  where the later processor reaches \<open>failed\<close>.
\<close>

theorem serve_basic_leaves_processing:
  "map_option fst (serve_basic example_env_extraction_throws example_request)
     = Some (Failed500 ''Unsupported file type'')
   \<and> map_option (\<lambda>r. status_updates (snd r)) (serve_basic example_env_extraction_throws example_request)
     = Some [(Some ''d1'', processing)]
   \<and> map_option (\<lambda>r. status_history pending ''d1'' (snd r))
        (serve_basic example_env_extraction_throws example_request)
     = Some [pending, processing]
   \<and> map_option (\<lambda>r. status_history pending ''d1'' (snd r))
        (serve_enhanced example_env_extraction_throws example_request)
     = Some [pending, processing, failed]"
  by (simp add: serve_basic_def serve_enhanced_def try_block_def req_json_def catch_reread_def
        catch_outer_def truthy_def error_message_def example_request_def
        example_env_extraction_throws_def Let_def)

lemma set_process_chunk_batches:
  assumes "k < length chunks"
  shows "set (process_chunk gen e docId k (chunks ! k)) \<subseteq> set (process_batches gen e docId chunks 0)"
proof -
  have "set (process_chunk gen e docId k (chunks ! k))
        \<subseteq> set (concat (map (\<lambda>k. process_chunk gen e docId k (chunks ! k)) [0..<length chunks]))"
    using assms by auto
  also have "\<dots> = set (drop_pauses (process_batches gen e docId chunks 0))"
    by (simp only: drop_pauses_process_batches)
  also have "\<dots> \<subseteq> set (process_batches gen e docId chunks 0)"
    by (rule set_drop_pauses)
  finally show ?thesis .
qed

lemma process_chunk_embedding_fails:
  "gen (embedding_fetch e k) (content chunk) = Inl err \<Longrightarrow>
   process_chunk gen e docId k chunk = [ConsoleError (''Failed to process chunk '' @ show_nat k @ '':'')]"
  by (simp add: process_chunk_def)

text \<open>
  C8. When the request parses, the download succeeds and extraction returns a text that is
  not blank, the run returns success whatever the embedding service and the inserts do:
  the chunker returns, the effects are the update to \<open>processing\<close>, the batches, and last
  the update to \<open>completed\<close>; no other status update is issued. Every chunk of the list
  is processed (its effect is among the effects of the run, whatever happened to its
  siblings), and a chunk whose embedding fails leaves its line on the error console.
\<close>

theorem serve_completes_despite_chunk_failures:
  assumes "req_method req \<noteq> ''OPTIONS''" "bodyUsed req = False" "body req = Some b"
    "download_error e = None" "extraction e = Inr text" "trim text \<noteq> []"
  shows "\<exists>chunks effs.
       chunkText text 1000 200 = Some chunks
     \<and> serve_basic e req = Some (Ok200 (length chunks), effs)
     \<and> effs = UpdateStatus (documentId b) processing
              # process_batches generateEmbedding_document e (documentId b) chunks 0
              @ [UpdateStatus (documentId b) completed]
     \<and> status_updates effs = [(documentId b, processing), (documentId b, completed)]
     \<and> last effs = UpdateStatus (documentId b) completed
     \<and> (\<forall>k < length chunks.
           set (process_chunk generateEmbedding_document e (documentId b) k (chunks ! k)) \<subseteq> set effs
           \<and> ((\<exists>err. generateEmbedding_document (embedding_fetch e k) (content (chunks ! k)) = Inl err)
                \<longrightarrow> ConsoleError (''Failed to process chunk '' @ show_nat k @ '':'') \<in> set effs))"
proof -
  obtain chunks where chunks: "chunkText text 1000 200 = Some chunks"
    using chunkText_returns by blast
  define effs where "effs = UpdateStatus (documentId b) processing
              # process_batches generateEmbedding_document e (documentId b) chunks 0
              @ [UpdateStatus (documentId b) completed]"
  have run: "serve_basic e req = Some (Ok200 (length chunks), effs)"
    using assms(1) try_block_success[OF assms(2-6), of "\<lambda>text. chunkText text 1000 200" chunks] chunks
    by (simp add: serve_basic_def effs_def)
  have upd: "status_updates effs = [(documentId b, processing), (documentId b, completed)]"
    by (simp add: effs_def status_updates_append status_updates_process_batches)
  have lst: "last effs = UpdateStatus (documentId b) completed"
    by (simp add: effs_def)
  have per: "\<forall>k < length chunks.
           set (process_chunk generateEmbedding_document e (documentId b) k (chunks ! k)) \<subseteq> set effs
           \<and> ((\<exists>err. generateEmbedding_document (embedding_fetch e k) (content (chunks ! k)) = Inl err)
                \<longrightarrow> ConsoleError (''Failed to process chunk '' @ show_nat k @ '':'') \<in> set effs)"
  proof (intro allI impI conjI)
    fix k assume k: "k < length chunks"
    show sub: "set (process_chunk generateEmbedding_document e (documentId b) k (chunks ! k)) \<subseteq> set effs"
      using set_process_chunk_batches[OF k, of generateEmbedding_document e "documentId b"] by (auto simp: effs_def)
    assume "\<exists>err. generateEmbedding_document (embedding_fetch e k) (content (chunks ! k)) = Inl err"
    then obtain err where
      "generateEmbedding_document (embedding_fetch e k) (content (chunks ! k)) = Inl err" ..
    from process_chunk_embedding_fails[of generateEmbedding_document e k "chunks ! k" err
           "documentId b", OF this] sub
    show "ConsoleError (''Failed to process chunk '' @ show_nat k @ '':'') \<in> set effs"
      by simp
  qed
  show ?thesis
    by (rule exI[of _ chunks], rule exI[of _ effs])
       (rule conjI[OF chunks conjI[OF run conjI[OF effs_def conjI[OF upd conjI[OF lst per]]]]])
qed

lemma all_fail_run:
  "serve_basic (example_env (\<lambda>k. True)) example_request
   = Some (Ok200 2, [UpdateStatus (Some ''d1'') processing,
                     ConsoleError ''Failed to process chunk 0:'',
                     ConsoleError ''Failed to process chunk 1:'',
                     UpdateStatus (Some ''d1'') completed])"
  by code_simp

theorem serve_completes_despite_chunk_failures_witness:
  "\<exists>chunks effs.
       chunkText ''ab'' 1000 200 = Some chunks
     \<and> serve_basic (example_env (\<lambda>k. True)) example_request = Some (Ok200 (length chunks), effs)
     \<and> status_updates effs = [(Some ''d1'', processing), (Some ''d1'', completed)]
     \<and> last effs = UpdateStatus (Some ''d1'') completed"
proof -
  define b where "b = \<lparr>documentId = Some ''d1'', filePath = Some ''d1/notes.txt''\<rparr>"
  have h1: "req_method example_request \<noteq> ''OPTIONS''" by (simp add: example_request_def)
  have h2: "bodyUsed example_request = False" by (simp add: example_request_def)
  have h3: "body example_request = Some b" by (simp add: example_request_def b_def)
  have h4: "download_error (example_env (\<lambda>k. True)) = None" by (simp add: example_env_def)
  have h5: "extraction (example_env (\<lambda>k. True)) = Inr ''ab''" by (simp add: example_env_def)
  have h6: "trim ''ab'' \<noteq> []" by (simp add: trim_def is_whitespace_def)
  have d: "documentId b = Some ''d1''" by (simp add: b_def)
  from serve_completes_despite_chunk_failures[OF h1 h2 h3 h4 h5 h6]
  show ?thesis unfolding d by blast
qed

section \<open>Similarity search\<close>

lemma float8_less_Num [simp]: "(Num x < Num y) = (x < y)"
  by (simp add: less_float8_def)

lemma float8_le_Num [simp]: "(Num x \<le> Num y) = (x \<le> y)"
  by (simp add: less_eq_float8_def)

lemma float8_less_NaN [simp]: "(Num x < NaN) = True" "(NaN < a) = False"
  by (simp_all add: less_float8_def)

lemma float8_le_NaN [simp]: "(a \<le> NaN) = True" "(NaN \<le> Num x) = False"
  by (simp_all add: less_eq_float8_def)

lemma one_minus_simps [simp]:
  "one_minus (Num r) = Num (1 - r)" "one_minus NaN = NaN" "one_minus (one_minus a) = a"
  by (simp_all add: one_minus_def split: float8.splits)

lemma sql_limit_returns:
  "0 \<le> k \<Longrightarrow> sql_limit (Some k) rows = Inr (take (nat k) rows)"
  by (simp add: sql_limit_def)

lemma search_chunks_rows_sorted:
  "sorted (map snd (search_chunks_rows cosine_distance documents document_chunks q th))"
  by (simp add: search_chunks_rows_def)

lemma search_knowledge_rows_sorted:
  "sorted (map snd (search_knowledge_rows cosine_distance knowledge_base q th))"
  by (simp add: search_knowledge_rows_def)

lemma search_chunks_rows_member:
  assumes "(dc, distance) \<in> set (search_chunks_rows cosine_distance documents document_chunks q (Some th))"
  shows "one_minus distance > th
    \<and> (\<exists>d \<in> set documents. doc_id d = dc_document_id dc \<and> doc_upload_status d = completed)
    \<and> dc \<in> set document_chunks"
  using assms by (auto simp: search_chunks_rows_def sql_greater_def)

lemma search_knowledge_rows_member:
  assumes "(kb, distance) \<in> set (search_knowledge_rows cosine_distance knowledge_base q (Some th))"
  shows "one_minus distance > th \<and> kb \<in> set knowledge_base \<and> kb_embedding kb \<noteq> None"
  using assms by (auto simp: search_knowledge_rows_def sql_greater_def)

lemma sorted_take_map: "sorted (map f xs) \<Longrightarrow> sorted (map f (take n xs))"
  by (simp add: take_map[symmetric] sorted_wrt_take)

lemma distance_of_chunk_result: "(\<lambda>r. one_minus (cm_similarity r)) \<circ> chunk_result = snd"
  by (auto simp: chunk_result_def)

lemma distance_of_knowledge_result: "(\<lambda>r. one_minus (km_similarity r)) \<circ> knowledge_result = snd"
  by (auto simp: knowledge_result_def)

text \<open>A list of \<open>float8\<close> values in the database's order is its numbers, in order, followed
  by its NaNs.\<close>

lemma sorted_float8_split:
  "sorted ds \<Longrightarrow> \<exists>xs m. ds = map Num xs @ replicate m NaN \<and> sorted xs"
proof (induction ds)
  case Nil
  then show ?case by simp
next
  case (Cons d ds)
  then obtain xs m where ds: "ds = map Num xs @ replicate m NaN" and xs: "sorted xs"
    by auto
  show ?case
  proof (cases d)
    case (Num x)
    have "x \<le> y" if "y \<in> set xs" for y
    proof -
      from that have "Num y \<in> set ds" by (simp add: ds)
      with Cons.prems Num have "Num x \<le> Num y" by fastforce
      then show ?thesis by simp
    qed
    with xs have "sorted (x # xs)" by simp
    moreover have "d # ds = map Num (x # xs) @ replicate m NaN" using ds Num by simp
    ultimately show ?thesis by blast
  next
    case NaN
    from Cons.prems ds NaN have "xs = []" by (cases xs) auto
    with ds NaN have "d # ds = map Num [] @ replicate (Suc m) NaN" by simp
    moreover have "sorted ([] :: real list)" by simp
    ultimately show ?thesis by blast
  qed
qed

text \<open>What the rows of a search have in common, whatever the table: the similarities of
  rows that are sorted by distance, each above the threshold in the database's order.\<close>

lemma ranked_similarities:
  assumes "sorted ds" "\<forall>d \<in> set ds. one_minus d > th"
  shows "\<exists>xs m. map one_minus ds = map Num xs @ replicate m NaN
           \<and> (\<forall>x \<in> set xs. Num x > th) \<and> sorted (rev xs)"
proof -
  from sorted_float8_split[OF assms(1)] obtain ys m where
    ds: "ds = map Num ys @ replicate m NaN" and ys: "sorted ys" by blast
  define xs where "xs = map (\<lambda>y. 1 - y) ys"
  have eq: "map one_minus ds = map Num xs @ replicate m NaN"
    by (simp add: ds xs_def comp_def)
  have above: "\<forall>x \<in> set xs. Num x > th"
  proof
    fix x assume "x \<in> set xs"
    then obtain y where y: "y \<in> set ys" and x: "x = 1 - y" by (auto simp: xs_def)
    from y have "Num y \<in> set ds" by (simp add: ds)
    with assms(2) have "one_minus (Num y) > th" by blast
    with x show "Num x > th" by simp
  qed
  have "sorted (rev (map (\<lambda>y. 1 - y) zs))" if "sorted zs" for zs :: "real list"
    using that by (induction zs) (auto simp: sorted_append)
  from this[OF ys] have "sorted (rev xs)" by (simp add: xs_def)
  with eq above show ?thesis by blast
qed

lemmas search_eval =
  search_chunks_def search_chunks_rows_def search_knowledge_def search_knowledge_rows_def
  sql_limit_def sql_distance_def sql_greater_def chunk_result_def knowledge_result_def
  example_documents_def example_chunks_def example_zero_chunk_def example_knowledge_def
  pgvector_cosine_distance_def dot_product_def Let_def

lemma sqrt_25: "sqrt 25 = 5"
  by (rule real_sqrt_unique) simp_all

lemma search_chunks_scenario:
  "search_chunks pgvector_cosine_distance example_documents example_chunks
     (Some [1, 0]) (Some (Num (7 / 10))) (Some 5)
   = Inr [\<lparr>cm_id = ''c2'', cm_document_id = ''d1'', cm_content = ''second'', cm_chunk_index = 1,
           cm_metadata = ''{}'', cm_similarity = Num (8 / 10)\<rparr>]"
  by (simp add: search_eval sqrt_25)

lemma search_knowledge_example:
  "search_knowledge pgvector_cosine_distance example_knowledge
     (Some [1, 0]) (Some (Num (7 / 10))) (Some 3)
   = Inr [\<lparr>km_id = ''k1'', km_title = ''Axle loads'', km_content = ''limits'',
           km_description = None, km_tags = Some [''manual''], km_similarity = Num (8 / 10)\<rparr>]"
  by (simp add: search_eval sqrt_25)

text \<open>
  C1, as the claim states it, fails for a stored vector that is zero: its distance to the
  query is NaN, so is its similarity, the database ranks NaN above the threshold and after
  every number, and the row is returned last. Its similarity is not a number above 0.7,
  and after 0.8 it is not a step down: the similarities are not in non-increasing order.
\<close>

theorem search_chunks_nan_counterexample:
  "search_chunks pgvector_cosine_distance example_documents (example_chunks @ [example_zero_chunk])
     (Some [1, 0]) (Some (Num (7 / 10))) (Some 5)
   = Inr [\<lparr>cm_id = ''c2'', cm_document_id = ''d1'', cm_content = ''second'', cm_chunk_index = 1,
           cm_metadata = ''{}'', cm_similarity = Num (8 / 10)\<rparr>,
          \<lparr>cm_id = ''c5'', cm_document_id = ''d1'', cm_content = ''fifth'', cm_chunk_index = 3,
           cm_metadata = ''{}'', cm_similarity = NaN\<rparr>]
   \<and> Num (8 / 10) < NaN
   \<and> \<not> sorted (rev [Num (8 / 10), NaN])"
  by (simp add: search_eval sqrt_25)

text \<open>
  C1, amended. For every query embedding, every threshold and every limit \<open>k \<ge> 0\<close>, and
  for every distance operator and every content of the tables, both searches return, and
  they return at most \<open>k\<close> rows, ordered by increasing distance in the database's order
  (NaN last). The similarities of the rows returned are numbers in non-increasing order,
  each strictly greater than the threshold, followed by the NaNs of the rows whose distance
  is NaN (a zero vector); every similarity is above the threshold in the database's
  order, in which NaN is above every number. Every chunk returned belongs to a document
  whose status is \<open>completed\<close>. (A negative limit is an error of the database and returns
  no rows.)
\<close>

theorem search_results_ranked:
  assumes "match_threshold = Some th" "match_count = Some k" "0 \<le> k"
  shows "(\<exists>rows xs m. search_chunks cosine_distance documents document_chunks query_embedding
                   match_threshold match_count = Inr rows
            \<and> map cm_similarity rows = map Num xs @ replicate m NaN
            \<and> (\<forall>x \<in> set xs. Num x > th) \<and> (\<forall>t. th = Num t \<longrightarrow> (\<forall>x \<in> set xs. x > t))
            \<and> sorted (rev xs)
            \<and> (\<forall>r \<in> set rows. cm_similarity r > th)
            \<and> sorted (map (\<lambda>r. one_minus (cm_similarity r)) rows)
            \<and> int (length rows) \<le> k
            \<and> (\<forall>r \<in> set rows. \<exists>d \<in> set documents.
                   doc_id d = cm_document_id r \<and> doc_upload_status d = completed))
       \<and> (\<exists>rows xs m. search_knowledge cosine_distance knowledge_base query_embedding
                   match_threshold match_count = Inr rows
            \<and> map km_similarity rows = map Num xs @ replicate m NaN
            \<and> (\<forall>x \<in> set xs. Num x > th) \<and> (\<forall>t. th = Num t \<longrightarrow> (\<forall>x \<in> set xs. x > t))
            \<and> sorted (rev xs)
            \<and> (\<forall>r \<in> set rows. km_similarity r > th)
            \<and> sorted (map (\<lambda>r. one_minus (km_similarity r)) rows)
            \<and> int (length rows) \<le> k)"
proof (rule conjI)
  define sel where "sel = search_chunks_rows cosine_distance documents document_chunks
                            query_embedding (Some th)"
  define rows where "rows = map chunk_result (take (nat k) sel)"
  have run: "search_chunks cosine_distance documents document_chunks query_embedding
               match_threshold match_count = Inr rows"
    using assms by (simp add: search_chunks_def sql_limit_returns rows_def sel_def)
  have mem: "\<exists>dc distance. r = chunk_result (dc, distance) \<and> (dc, distance) \<in> set sel"
    if "r \<in> set rows" for r
    using that by (auto simp: rows_def dest: in_set_takeD)
  have sim: "\<forall>r \<in> set rows. cm_similarity r > th"
  proof
    fix r assume "r \<in> set rows"
    from mem[OF this] obtain dc distance where
      r: "r = chunk_result (dc, distance)" and "(dc, distance) \<in> set sel" by blast
    with search_chunks_rows_member[of dc distance cosine_distance documents document_chunks
           query_embedding th]
    show "cm_similarity r > th" by (simp add: sel_def chunk_result_def)
  qed
  have doc: "\<forall>r \<in> set rows. \<exists>d \<in> set documents.
                   doc_id d = cm_document_id r \<and> doc_upload_status d = completed"
  proof
    fix r assume "r \<in> set rows"
    from mem[OF this] obtain dc distance where
      r: "r = chunk_result (dc, distance)" and "(dc, distance) \<in> set sel" by blast
    with search_chunks_rows_member[of dc distance cosine_distance documents document_chunks
           query_embedding th]
    show "\<exists>d \<in> set documents. doc_id d = cm_document_id r \<and> doc_upload_status d = completed"
      by (simp add: sel_def chunk_result_def)
  qed
  have srt: "sorted (map (\<lambda>r. one_minus (cm_similarity r)) rows)"
    using sorted_take_map[OF search_chunks_rows_sorted, of "nat k" cosine_distance documents
            document_chunks query_embedding "Some th"]
    by (simp add: rows_def sel_def distance_of_chunk_result)
  have "\<forall>d \<in> set (map (\<lambda>r. one_minus (cm_similarity r)) rows). one_minus d > th"
    using sim by simp
  from ranked_similarities[OF srt this] obtain xs m where
    xs: "map cm_similarity rows = map Num xs @ replicate m NaN"
        "\<forall>x \<in> set xs. Num x > th" "sorted (rev xs)"
    by (auto simp: comp_def)
  have num: "\<forall>t. th = Num t \<longrightarrow> (\<forall>x \<in> set xs. x > t)" using xs(2) by auto
  have len: "int (length rows) \<le> k" using assms(3) by (simp add: rows_def)
  show "\<exists>rows xs m. search_chunks cosine_distance documents document_chunks query_embedding
                   match_threshold match_count = Inr rows
            \<and> map cm_similarity rows = map Num xs @ replicate m NaN
            \<and> (\<forall>x \<in> set xs. Num x > th) \<and> (\<forall>t. th = Num t \<longrightarrow> (\<forall>x \<in> set xs. x > t))
            \<and> sorted (rev xs)
            \<and> (\<forall>r \<in> set rows. cm_similarity r > th)
            \<and> sorted (map (\<lambda>r. one_minus (cm_similarity r)) rows)
            \<and> int (length rows) \<le> k
            \<and> (\<forall>r \<in> set rows. \<exists>d \<in> set documents.
                   doc_id d = cm_document_id r \<and> doc_upload_status d = completed)"
    by (rule exI[of _ rows], rule exI[of _ xs], rule exI[of _ m])
       (rule conjI[OF run conjI[OF xs(1) conjI[OF xs(2) conjI[OF num conjI[OF xs(3)
          conjI[OF sim conjI[OF srt conjI[OF len doc]]]]]]]])
next
  define sel where "sel = search_knowledge_rows cosine_distance knowledge_base
                            query_embedding (Some th)"
  define rows where "rows = map knowledge_result (take (nat k) sel)"
  have run: "search_knowledge cosine_distance knowledge_base query_embedding
               match_threshold match_count = Inr rows"
    using assms by (simp add: search_knowledge_def sql_limit_returns rows_def sel_def)
  have mem: "\<exists>kb distance. r = knowledge_result (kb, distance) \<and> (kb, distance) \<in> set sel"
    if "r \<in> set rows" for r
    using that by (auto simp: rows_def dest: in_set_takeD)
  have sim: "\<forall>r \<in> set rows. km_similarity r > th"
  proof
    fix r assume "r \<in> set rows"
    from mem[OF this] obtain kb distance where
      r: "r = knowledge_result (kb, distance)" and "(kb, distance) \<in> set sel" by blast
    with search_knowledge_rows_member[of kb distance cosine_distance knowledge_base
           query_embedding th]
    show "km_similarity r > th" by (simp add: sel_def knowledge_result_def)
  qed
  have srt: "sorted (map (\<lambda>r. one_minus (km_similarity r)) rows)"
    using sorted_take_map[OF search_knowledge_rows_sorted, of "nat k" cosine_distance
            knowledge_base query_embedding "Some th"]
    by (simp add: rows_def sel_def distance_of_knowledge_result)
  have "\<forall>d \<in> set (map (\<lambda>r. one_minus (km_similarity r)) rows). one_minus d > th"
    using sim by simp
  from ranked_similarities[OF srt this] obtain xs m where
    xs: "map km_similarity rows = map Num xs @ replicate m NaN"
        "\<forall>x \<in> set xs. Num x > th" "sorted (rev xs)"
    by (auto simp: comp_def)
  have num: "\<forall>t. th = Num t \<longrightarrow> (\<forall>x \<in> set xs. x > t)" using xs(2) by auto
  have len: "int (length rows) \<le> k" using assms(3) by (simp add: rows_def)
  show "\<exists>rows xs m. search_knowledge cosine_distance knowledge_base query_embedding
                   match_threshold match_count = Inr rows
            \<and> map km_similarity rows = map Num xs @ replicate m NaN
            \<and> (\<forall>x \<in> set xs. Num x > th) \<and> (\<forall>t. th = Num t \<longrightarrow> (\<forall>x \<in> set xs. x > t))
            \<and> sorted (rev xs)
            \<and> (\<forall>r \<in> set rows. km_similarity r > th)
            \<and> sorted (map (\<lambda>r. one_minus (km_similarity r)) rows)
            \<and> int (length rows) \<le> k"
    by (rule exI[of _ rows], rule exI[of _ xs], rule exI[of _ m])
       (rule conjI[OF run conjI[OF xs(1) conjI[OF xs(2) conjI[OF num conjI[OF xs(3)
          conjI[OF sim conjI[OF srt len]]]]]]])
qed

theorem search_results_ranked_witness:
  "(0::int) \<le> 5
   \<and> search_chunks pgvector_cosine_distance example_documents example_chunks
        (Some [1, 0]) (Some (Num (7 / 10))) (Some 5)
      = Inr [\<lparr>cm_id = ''c2'', cm_document_id = ''d1'', cm_content = ''second'', cm_chunk_index = 1,
           cm_metadata = ''{}'', cm_similarity = Num (8 / 10)\<rparr>]"
proof -
  have h: "(0::int) \<le> 5" by simp
  from search_results_ranked[OF refl refl h, of pgvector_cosine_distance example_documents
          example_chunks "Some [1, 0]" "Num (7 / 10)" example_knowledge]
  show ?thesis unfolding search_chunks_scenario by simp
qed

section \<open>Chat: retrieval and context assembly\<close>

lemma result_count_0_chunks: "result_count c = 0 \<Longrightarrow> chunks_section c = []"
  by (cases c) (auto simp: result_count_def chunks_section_def)

lemma result_count_0_knowledge: "result_count k = 0 \<Longrightarrow> knowledge_section k = []"
  by (cases k) (auto simp: result_count_def knowledge_section_def)

lemma systemPrompt_empty: "systemPrompt [] = persona @ nl @ nl @ nl @ nl @ closing"
  by (simp add: systemPrompt_def)

lemma rpc_failure: "rpc_data (Inl err) = None \<and> rpc_error_log label (Inl err) = [ConsoleError label]"
  by (simp add: rpc_data_def rpc_error_log_def)

text \<open>
  C9. In a chat turn whose question is embedded and whose completion call succeeds, the
  turn completes with the model's answer whatever the two searches return. A search that
  fails leaves its line on the error console and counts as zero results. A section with
  zero results contributes nothing to the context: the context is then the other section
  alone, and when both are empty it is the empty string, for which the system prompt is the
  persona text and the closing sentence separated by blank lines.
\<close>

theorem chat_degrades_on_search_failure:
  assumes "chat_method req \<noteq> ''OPTIONS''" "chat_json req = Some b"
    "question_fetch e (embedding_request_chat (message b)) = HttpOk questionEmbedding"
    "rpc_search_chunks e questionEmbedding 0.7 5 = chunksAnswer"
    "rpc_search_knowledge e questionEmbedding 0.7 3 = knowledgeAnswer"
    "completion_fetch e
       (completion_request_for (build_context (rpc_data chunksAnswer) (rpc_data knowledgeAnswer))
          (recent_history (conversationHistory b)) (message b)) = HttpOk answer"
  shows "serve_chat e req =
           (ChatOk answer (result_count (rpc_data chunksAnswer)) (result_count (rpc_data knowledgeAnswer)),
            rpc_error_log ''Error searching chunks:'' chunksAnswer
            @ rpc_error_log ''Error searching knowledge base:'' knowledgeAnswer)
     \<and> ((\<exists>err. chunksAnswer = Inl err) \<longrightarrow>
          ConsoleError ''Error searching chunks:'' \<in> set (snd (serve_chat e req))
          \<and> result_count (rpc_data chunksAnswer) = 0)
     \<and> ((\<exists>err. knowledgeAnswer = Inl err) \<longrightarrow>
          ConsoleError ''Error searching knowledge base:'' \<in> set (snd (serve_chat e req))
          \<and> result_count (rpc_data knowledgeAnswer) = 0)
     \<and> (result_count (rpc_data chunksAnswer) = 0 \<longrightarrow>
          build_context (rpc_data chunksAnswer) (rpc_data knowledgeAnswer)
          = knowledge_section (rpc_data knowledgeAnswer))
     \<and> (result_count (rpc_data knowledgeAnswer) = 0 \<longrightarrow>
          build_context (rpc_data chunksAnswer) (rpc_data knowledgeAnswer)
          = chunks_section (rpc_data chunksAnswer))
     \<and> (result_count (rpc_data chunksAnswer) = 0 \<and> result_count (rpc_data knowledgeAnswer) = 0 \<longrightarrow>
          build_context (rpc_data chunksAnswer) (rpc_data knowledgeAnswer) = []
          \<and> systemPrompt (build_context (rpc_data chunksAnswer) (rpc_data knowledgeAnswer))
              = persona @ nl @ nl @ nl @ nl @ closing)"
proof -
  have run: "serve_chat e req =
           (ChatOk answer (result_count (rpc_data chunksAnswer)) (result_count (rpc_data knowledgeAnswer)),
            rpc_error_log ''Error searching chunks:'' chunksAnswer
            @ rpc_error_log ''Error searching knowledge base:'' knowledgeAnswer)"
    using assms
    by (simp add: serve_chat_def generateEmbedding_chat_def openai_result_def Let_def)
  have c: "ConsoleError ''Error searching chunks:'' \<in> set (snd (serve_chat e req))
          \<and> result_count (rpc_data chunksAnswer) = 0" if "\<exists>err. chunksAnswer = Inl err"
    using that by (auto simp: run rpc_data_def rpc_error_log_def result_count_def)
  have k: "ConsoleError ''Error searching knowledge base:'' \<in> set (snd (serve_chat e req))
          \<and> result_count (rpc_data knowledgeAnswer) = 0" if "\<exists>err. knowledgeAnswer = Inl err"
    using that by (auto simp: run rpc_data_def rpc_error_log_def result_count_def)
  have s1: "build_context (rpc_data chunksAnswer) (rpc_data knowledgeAnswer)
          = knowledge_section (rpc_data knowledgeAnswer)" if "result_count (rpc_data chunksAnswer) = 0"
    using result_count_0_chunks[OF that] by (simp add: build_context_def)
  have s2: "build_context (rpc_data chunksAnswer) (rpc_data knowledgeAnswer)
          = chunks_section (rpc_data chunksAnswer)" if "result_count (rpc_data knowledgeAnswer) = 0"
    using result_count_0_knowledge[OF that] by (simp add: build_context_def)
  have s3: "build_context (rpc_data chunksAnswer) (rpc_data knowledgeAnswer) = []
          \<and> systemPrompt (build_context (rpc_data chunksAnswer) (rpc_data knowledgeAnswer))
              = persona @ nl @ nl @ nl @ nl @ closing"
    if "result_count (rpc_data chunksAnswer) = 0 \<and> result_count (rpc_data knowledgeAnswer) = 0"
    using that result_count_0_chunks result_count_0_knowledge systemPrompt_empty
    by (simp add: build_context_def)
  from run c k s1 s2 s3 show ?thesis by blast
qed

theorem chat_degrades_on_search_failure_witness:
  "serve_chat example_chat_env example_chat_request
   = (ChatOk ''Check the axle loads.'' 0 0, [ConsoleError ''Error searching chunks:''])"
proof -
  define b where "b = \<lparr>message = ''How do I load a truck?'', conversationHistory = None\<rparr>"
  have h1: "chat_method example_chat_request \<noteq> ''OPTIONS''" by (simp add: example_chat_request_def)
  have h2: "chat_json example_chat_request = Some b" by (simp add: example_chat_request_def b_def)
  have h3: "question_fetch example_chat_env (embedding_request_chat (message b)) = HttpOk [1, 0]"
    by (simp add: example_chat_env_def)
  have h4: "rpc_search_chunks example_chat_env [1, 0] 0.7 5 = Inl ''connection refused''"
    by (simp add: example_chat_env_def)
  have h5: "rpc_search_knowledge example_chat_env [1, 0] 0.7 3 = Inr []"
    by (simp add: example_chat_env_def)
  have h6: "completion_fetch example_chat_env
       (completion_request_for (build_context (rpc_data (Inl ''connection refused'')) (rpc_data (Inr [])))
          (recent_history (conversationHistory b)) (message b)) = HttpOk ''Check the axle loads.''"
    by (simp add: example_chat_env_def)
  from chat_degrades_on_search_failure[OF h1 h2 h3 h4 h5 h6]
  show ?thesis by (simp add: rpc_data_def rpc_error_log_def result_count_def)
qed

lemma context_example:
  "build_context (Some [\<lparr>cm_id = ''c2'', cm_document_id = ''d1'', cm_content = ''second'',
                         cm_chunk_index = 1, cm_metadata = ''{}'', cm_similarity = Num (82 / 100)\<rparr>]) None
   = ''Relevant document excerpts:'' @ nl @ nl @ ''[1] second'' @ nl @ nl"
  by (simp add: build_context_def chunks_section_def knowledge_section_def enumerate_eq_zip
        show_nat.simps digit_char_def)

end
